theory Spec2Isabelle
  imports Main "HOL-Library.Word"
begin

unbundle bit_operations_syntax

section \<open>Data model of the word clock firmware\<close>

text \<open>
  The firmware targets an ATMega328P: \<open>uint8_t\<close> is an 8-bit word, \<open>uint32_t\<close> and
  \<open>unsigned long\<close> (the type of \<open>millis()\<close>) are 32-bit words, both with wrap-around
  arithmetic.
\<close>

type_synonym u8 = "8 word"
type_synonym u16 = "16 word"
type_synonym u32 = "32 word"

text \<open>The enumeration \<open>word_bit_map\<close> and the bit position given to each member.\<close>

datatype word_bit_map =
    TEN_M | HALF_M | QUARTER_M | TWENTY_M | FIVE_M | MINUTES | PAST | TO
  | ONE_H | TWO_H | THREE_H | FOUR_H | FIVE_H | SIX_H | SEVEN_H | EIGHT_H
  | NINE_H | TEN_H | ELEVEN_H | TWELVE_H | OCLOCK

fun bit_pos :: "word_bit_map \<Rightarrow> nat" where
  "bit_pos TEN_M = 20"
| "bit_pos HALF_M = 19"
| "bit_pos QUARTER_M = 18"
| "bit_pos TWENTY_M = 17"
| "bit_pos FIVE_M = 16"
| "bit_pos MINUTES = 15"
| "bit_pos PAST = 14"
| "bit_pos TO = 13"
| "bit_pos ONE_H = 12"
| "bit_pos TWO_H = 11"
| "bit_pos THREE_H = 10"
| "bit_pos FOUR_H = 9"
| "bit_pos FIVE_H = 8"
| "bit_pos SIX_H = 7"
| "bit_pos SEVEN_H = 6"
| "bit_pos EIGHT_H = 5"
| "bit_pos NINE_H = 4"
| "bit_pos TEN_H = 3"
| "bit_pos ELEVEN_H = 2"
| "bit_pos TWELVE_H = 1"
| "bit_pos OCLOCK = 0"

text \<open>Levels of a digital input pin, as \<open>digitalRead\<close> returns them.\<close>

datatype pin_level = LOW | HIGH

text \<open>
  Modelled from the spec: the ClockSource. The firmware reaches the DS3231 chip through
  the class \<open>RTC_DS3231\<close> and the value class \<open>DateTime\<close> of RTClib, a library that is
  not part of the sources. \<open>DateTime\<close> is the six fields its constructor takes; the chip
  is a store holding one \<open>DateTime\<close> and the power-loss flag: \<open>adjust\<close> (the spec's
  \<open>writeTime\<close>) overwrites the stored time, \<open>now\<close> (the spec's \<open>readTime\<close>) returns it,
  \<open>lostPower\<close> (the spec's \<open>hasLostPower\<close>) returns the flag. The passing of time inside
  the chip is not modelled: the theorems below hold for whatever the chip holds.
\<close>

record DateTime =
  dt_year :: u16
  dt_month :: u8
  dt_day :: u8
  dt_hour :: u8
  dt_minute :: u8
  dt_second :: u8

record RTC_DS3231 =
  rtc_time :: DateTime
  rtc_lost_power :: bool

text \<open>
  What the firmware does to the outside world, in the order it does it: the calls on the
  RTC, and the three bytes shifted out to the latches by \<open>flushWordRegister\<close>. The two
  edit operations \<open>advanceHour\<close> and \<open>advanceMinute\<close> are recorded as well, one entry
  per call, so that advance events can be counted.
\<close>

datatype event =
    RtcAdjust DateTime
  | RtcNow
  | Flush "u8 list"
  | AdvanceHour
  | AdvanceMinute

text \<open>
  The global variables of the sketch, the function-local \<open>static\<close> variables of
  \<open>handleTimeAdjustButtons\<close>, the RTC chip and the trace of events.
\<close>

record clock_state =
  currentHour :: u8
  currentMinute :: u8
  currentSecond :: u8
  lastRTCQueryTime :: u32
  timeLocallyUpdated :: bool
  localWordRegister :: u32
  rtc :: RTC_DS3231
  lastHourButtonChange :: u32
  lastMinuteButtonChange :: u32
  lastHourButtonValue :: pin_level
  lastMinuteButtonValue :: pin_level
  hourButtonBeingHeld :: bool
  minuteButtonBeingHeld :: bool
  nextHourAdvanceTime :: u32
  nextMinuteAdvanceTime :: u32
  updateRTCTime :: u32
  trace :: "event list"

text \<open>The tuneable constants of the sketch.\<close>

definition BUTTON_DEBOUNCE_MS :: u32 where
  "BUTTON_DEBOUNCE_MS = 50"

definition BUTTON_HOLD_ACTION_REPEAT_PERIOD :: u32 where
  "BUTTON_HOLD_ACTION_REPEAT_PERIOD = 1000"

definition BUTTON_INACTION_RTC_UPDATE_DELAY :: u32 where
  "BUTTON_INACTION_RTC_UPDATE_DELAY = 5000"

definition RTC_QUERY_PERIOD_MILLIS :: u32 where
  "RTC_QUERY_PERIOD_MILLIS = 5000"

definition MS_PER_SECOND :: u32 where
  "MS_PER_SECOND = 1000"

definition BITS_PER_BYTE :: nat where
  "BITS_PER_BYTE = 8"

definition RTC_RESET :: DateTime where
  "RTC_RESET = \<lparr>dt_year = 2017, dt_month = 1, dt_day = 1,
                 dt_hour = 0, dt_minute = 0, dt_second = 0\<rparr>"

section \<open>The word register and the encoder\<close>

definition getByte :: "u32 \<Rightarrow> u8 \<Rightarrow> u8" where
  "getByte number byteIndex =
     (let shifted = drop_bit (unat byteIndex * BITS_PER_BYTE) number
      in ucast (shifted AND 0xFF))"

definition enableWord :: "word_bit_map \<Rightarrow> clock_state \<Rightarrow> clock_state" where
  "enableWord theWord s =
     (let mask = push_bit (bit_pos theWord) (1 :: u32)
      in s\<lparr>localWordRegister := localWordRegister s OR mask\<rparr>)"

definition disableAllWords :: "clock_state \<Rightarrow> clock_state" where
  "disableAllWords s = s\<lparr>localWordRegister := 0\<rparr>"

definition flushWordRegister :: "clock_state \<Rightarrow> clock_state" where
  "flushWordRegister s =
     s\<lparr>trace := trace s @
        [Flush [getByte (localWordRegister s) 0,
                getByte (localWordRegister s) 1,
                getByte (localWordRegister s) 2]]\<rparr>"

text \<open>The \<open>if\<close>/\<open>else if\<close> chain on the minute, in the order of the source.\<close>

definition minutePart :: "u8 \<Rightarrow> clock_state \<Rightarrow> clock_state" where
  "minutePart minute s =
     (if minute < 5 then enableWord OCLOCK s
      else if minute \<ge> 5 \<and> minute < 10 then enableWord FIVE_M s
      else if minute \<ge> 10 \<and> minute < 15 then enableWord TEN_M s
      else if minute \<ge> 15 \<and> minute < 20 then enableWord QUARTER_M s
      else if minute \<ge> 20 \<and> minute < 25 then enableWord TWENTY_M s
      else if minute \<ge> 25 \<and> minute < 30 then enableWord FIVE_M (enableWord TWENTY_M s)
      else if minute \<ge> 30 \<and> minute < 35 then enableWord HALF_M s
      else if minute \<ge> 35 \<and> minute < 40 then enableWord FIVE_M (enableWord TWENTY_M s)
      else if minute \<ge> 40 \<and> minute < 45 then enableWord TWENTY_M s
      else if minute \<ge> 45 \<and> minute < 50 then enableWord QUARTER_M s
      else if minute \<ge> 50 \<and> minute < 55 then enableWord TEN_M s
      else if minute \<ge> 55 then enableWord FIVE_M s
      else s)"

text \<open>The first \<open>switch (hour)\<close>, of the branch \<open>minute < 35\<close>; no \<open>default\<close> case.\<close>

definition hourSwitchPast :: "u8 \<Rightarrow> clock_state \<Rightarrow> clock_state" where
  "hourSwitchPast hour s =
     (if hour = 1 then enableWord ONE_H s
      else if hour = 2 then enableWord TWO_H s
      else if hour = 3 then enableWord THREE_H s
      else if hour = 4 then enableWord FOUR_H s
      else if hour = 5 then enableWord FIVE_H s
      else if hour = 6 then enableWord SIX_H s
      else if hour = 7 then enableWord SEVEN_H s
      else if hour = 8 then enableWord EIGHT_H s
      else if hour = 9 then enableWord NINE_H s
      else if hour = 10 then enableWord TEN_H s
      else if hour = 11 then enableWord ELEVEN_H s
      else if hour = 12 then enableWord TWELVE_H s
      else s)"

text \<open>The second \<open>switch (hour)\<close>, of the branch \<open>minute \<ge> 35\<close>; no \<open>default\<close> case.\<close>

definition hourSwitchTo :: "u8 \<Rightarrow> clock_state \<Rightarrow> clock_state" where
  "hourSwitchTo hour s =
     (if hour = 1 then enableWord TWO_H s
      else if hour = 2 then enableWord THREE_H s
      else if hour = 3 then enableWord FOUR_H s
      else if hour = 4 then enableWord FIVE_H s
      else if hour = 5 then enableWord SIX_H s
      else if hour = 6 then enableWord SEVEN_H s
      else if hour = 7 then enableWord EIGHT_H s
      else if hour = 8 then enableWord NINE_H s
      else if hour = 9 then enableWord TEN_H s
      else if hour = 10 then enableWord ELEVEN_H s
      else if hour = 11 then enableWord TWELVE_H s
      else if hour = 12 then enableWord ONE_H s
      else s)"

definition updateLocalWordRegister :: "u8 \<Rightarrow> u8 \<Rightarrow> clock_state \<Rightarrow> clock_state" where
  "updateLocalWordRegister hour0 minute s0 =
     (let s1 = disableAllWords s0;
          hour1 = (if hour0 > 12 then hour0 - 12 else hour0);
          hour = (if hour1 = 0 then 12 else hour1);
          s2 = minutePart minute s1
      in if minute < 35
         then hourSwitchPast hour (if minute \<ge> 5 then enableWord PAST s2 else s2)
         else hourSwitchTo hour (enableWord TO s2))"

definition updateDisplay :: "u8 \<Rightarrow> u8 \<Rightarrow> clock_state \<Rightarrow> clock_state" where
  "updateDisplay hour minute s = flushWordRegister (updateLocalWordRegister hour minute s)"

text \<open>Reading the encoder's result: whether a word is lit in the register.\<close>

definition enabled :: "clock_state \<Rightarrow> word_bit_map \<Rightarrow> bool" where
  "enabled s w = bit (localWordRegister s) (bit_pos w)"

definition hour_words :: "word_bit_map list" where
  "hour_words = [ONE_H, TWO_H, THREE_H, FOUR_H, FIVE_H, SIX_H, SEVEN_H, EIGHT_H,
                 NINE_H, TEN_H, ELEVEN_H, TWELVE_H]"

definition minute_words :: "word_bit_map list" where
  "minute_words = [TEN_M, HALF_M, QUARTER_M, TWENTY_M, FIVE_M, MINUTES]"


text \<open>The words lit by the encoder among a given list, in the order of the list.\<close>

definition lit :: "clock_state \<Rightarrow> word_bit_map list \<Rightarrow> word_bit_map list" where
  "lit s ws = filter (enabled s) ws"

section \<open>The RTC\<close>

definition rtc_now :: "clock_state \<Rightarrow> DateTime \<times> clock_state" where
  "rtc_now s = (rtc_time (rtc s), s\<lparr>trace := trace s @ [RtcNow]\<rparr>)"

definition rtc_adjust :: "DateTime \<Rightarrow> clock_state \<Rightarrow> clock_state" where
  "rtc_adjust dt s =
     s\<lparr>rtc := \<lparr>rtc_time = dt, rtc_lost_power = False\<rparr>,
       trace := trace s @ [RtcAdjust dt]\<rparr>"

definition rtc_lostPower :: "clock_state \<Rightarrow> bool" where
  "rtc_lostPower s = rtc_lost_power (rtc s)"

definition updateDisplayFromRTC :: "clock_state \<Rightarrow> clock_state" where
  "updateDisplayFromRTC s =
     (let (timeRTC, s1) = rtc_now s;
          s2 = s1\<lparr>currentHour := dt_hour timeRTC,
                  currentMinute := dt_minute timeRTC,
                  currentSecond := dt_second timeRTC\<rparr>
      in updateDisplay (currentHour s2) (currentMinute s2) s2)"

section \<open>Startup\<close>

text \<open>
  The values the C initialisers give to the globals and to the \<open>static\<close> locals, for a
  given RTC chip.
\<close>

definition initial_state :: "RTC_DS3231 \<Rightarrow> clock_state" where
  "initial_state chip =
     \<lparr>currentHour = 0, currentMinute = 0, currentSecond = 0,
      lastRTCQueryTime = 0, timeLocallyUpdated = False, localWordRegister = 0,
      rtc = chip,
      lastHourButtonChange = 0, lastMinuteButtonChange = 0,
      lastHourButtonValue = HIGH, lastMinuteButtonValue = HIGH,
      hourButtonBeingHeld = False, minuteButtonBeingHeld = False,
      nextHourAdvanceTime = 0, nextMinuteAdvanceTime = 0, updateRTCTime = 0,
      trace = []\<rparr>"

text \<open>
  The startup function \<open>setup()\<close> of the sketch, given the value \<open>millis()\<close> returns
  at its last line. The pin configuration and the debug LED touch nothing of the state
  and are left out.
\<close>

definition setup_sketch :: "u32 \<Rightarrow> clock_state \<Rightarrow> clock_state" where
  "setup_sketch millis s =
     (let s1 = (if rtc_lostPower s then rtc_adjust RTC_RESET s else s);
          s2 = updateDisplayFromRTC s1
      in s2\<lparr>lastRTCQueryTime := millis\<rparr>)"

section \<open>The time adjustment buttons\<close>

definition advanceHour :: "u8 \<Rightarrow> u8" where
  "advanceHour hour = (if hour < 23 then hour + 1 else 0)"

text \<open>\<open>advanceMinute\<close> takes and returns the pair (hour, minute) behind its two pointers.\<close>

definition advanceMinute :: "u8 \<times> u8 \<Rightarrow> u8 \<times> u8" where
  "advanceMinute hm =
     (case hm of (hour, minute) \<Rightarrow>
        if minute < 59 then (hour, minute + 1) else (hour + 1, 0))"

text \<open>
  \<open>handleTimeAdjustButtons\<close> in its four blocks, in the order of the source: the
  debouncing bookkeeping, the hour button, the minute button, the write-back to the RTC.
  The two pin levels read by \<open>digitalRead\<close> and the value \<open>timeNow\<close> returned by
  \<open>millis()\<close> are the inputs.
\<close>

definition debounceBlock :: "pin_level \<Rightarrow> pin_level \<Rightarrow> u32 \<Rightarrow> clock_state \<Rightarrow> clock_state" where
  "debounceBlock hourButtonValue minuteButtonValue timeNow s =
     (let s1 = (if hourButtonValue \<noteq> lastHourButtonValue s
                then s\<lparr>lastHourButtonChange := timeNow\<rparr> else s);
          s2 = (if minuteButtonValue \<noteq> lastMinuteButtonValue s1
                then s1\<lparr>lastMinuteButtonChange := timeNow\<rparr> else s1)
      in s2\<lparr>lastHourButtonValue := hourButtonValue,
             lastMinuteButtonValue := minuteButtonValue\<rparr>)"

definition hourButtonBlock :: "pin_level \<Rightarrow> u32 \<Rightarrow> clock_state \<Rightarrow> clock_state" where
  "hourButtonBlock hourButtonValue timeNow s =
     (if (timeNow - lastHourButtonChange s) > BUTTON_DEBOUNCE_MS then
        if hourButtonValue = LOW then
          if hourButtonBeingHeld s = False then
            (let s1 = s\<lparr>currentHour := advanceHour (currentHour s),
                          trace := trace s @ [AdvanceHour]\<rparr>;
                 s2 = s1\<lparr>currentSecond := 0,
                         timeLocallyUpdated := True,
                         nextHourAdvanceTime := timeNow + BUTTON_HOLD_ACTION_REPEAT_PERIOD,
                         updateRTCTime := timeNow + BUTTON_INACTION_RTC_UPDATE_DELAY\<rparr>;
                 s3 = updateDisplay (currentHour s2) (currentMinute s2) s2
             in s3\<lparr>hourButtonBeingHeld := True\<rparr>)
          else if timeNow \<ge> nextHourAdvanceTime s then
            (let s1 = s\<lparr>currentHour := advanceHour (currentHour s),
                          trace := trace s @ [AdvanceHour]\<rparr>;
                 s2 = s1\<lparr>currentSecond := 0,
                         nextHourAdvanceTime := timeNow + BUTTON_HOLD_ACTION_REPEAT_PERIOD\<rparr>;
                 s3 = updateDisplay (currentHour s2) (currentMinute s2) s2
             in s3\<lparr>updateRTCTime := timeNow + BUTTON_INACTION_RTC_UPDATE_DELAY\<rparr>)
          else s
        else s\<lparr>hourButtonBeingHeld := False\<rparr>
      else s)"

definition minuteButtonBlock :: "pin_level \<Rightarrow> u32 \<Rightarrow> clock_state \<Rightarrow> clock_state" where
  "minuteButtonBlock minuteButtonValue timeNow s =
     (if (timeNow - lastMinuteButtonChange s) > BUTTON_DEBOUNCE_MS then
        if minuteButtonValue = LOW then
          if minuteButtonBeingHeld s = False then
            (let (h, m) = advanceMinute (currentHour s, currentMinute s);
                 s1 = s\<lparr>currentHour := h, currentMinute := m,
                          trace := trace s @ [AdvanceMinute]\<rparr>;
                 s2 = s1\<lparr>currentSecond := 0,
                         timeLocallyUpdated := True,
                         nextMinuteAdvanceTime := timeNow + BUTTON_HOLD_ACTION_REPEAT_PERIOD,
                         updateRTCTime := timeNow + BUTTON_INACTION_RTC_UPDATE_DELAY\<rparr>;
                 s3 = updateDisplay (currentHour s2) (currentMinute s2) s2
             in s3\<lparr>minuteButtonBeingHeld := True\<rparr>)
          else if timeNow \<ge> nextMinuteAdvanceTime s then
            (let (h, m) = advanceMinute (currentHour s, currentMinute s);
                 s1 = s\<lparr>currentHour := h, currentMinute := m,
                          trace := trace s @ [AdvanceMinute]\<rparr>;
                 s2 = s1\<lparr>currentSecond := 0,
                         nextMinuteAdvanceTime := timeNow + BUTTON_HOLD_ACTION_REPEAT_PERIOD,
                         updateRTCTime := timeNow + BUTTON_INACTION_RTC_UPDATE_DELAY\<rparr>
             in updateDisplay (currentHour s2) (currentMinute s2) s2)
          else s
        else s\<lparr>minuteButtonBeingHeld := False\<rparr>
      else s)"

definition writeBackBlock :: "u32 \<Rightarrow> clock_state \<Rightarrow> clock_state" where
  "writeBackBlock timeNow s =
     (if timeLocallyUpdated s = True \<and> timeNow > updateRTCTime s
         \<and> hourButtonBeingHeld s = False \<and> minuteButtonBeingHeld s = False then
        (let (timeRTC, s1) = rtc_now s;
             s2 = rtc_adjust
                    \<lparr>dt_year = dt_year timeRTC, dt_month = dt_month timeRTC,
                     dt_day = dt_day timeRTC,
                     dt_hour = currentHour s1, dt_minute = currentMinute s1,
                     dt_second = ucast (BUTTON_INACTION_RTC_UPDATE_DELAY div MS_PER_SECOND)\<rparr>
                    s1
         in s2\<lparr>timeLocallyUpdated := False, updateRTCTime := 0\<rparr>)
      else s)"

definition handleTimeAdjustButtons ::
    "pin_level \<Rightarrow> pin_level \<Rightarrow> u32 \<Rightarrow> clock_state \<Rightarrow> clock_state" where
  "handleTimeAdjustButtons hourButtonValue minuteButtonValue timeNow s =
     writeBackBlock timeNow
       (minuteButtonBlock minuteButtonValue timeNow
         (hourButtonBlock hourButtonValue timeNow
           (debounceBlock hourButtonValue minuteButtonValue timeNow s)))"

section \<open>The main loop\<close>

text \<open>
  What one pass of \<open>loop\<close> reads from its environment: the two button pins, the value
  of \<open>millis()\<close> inside \<open>handleTimeAdjustButtons\<close> and its value in \<open>loop\<close> itself.
  \<open>handleBrightnessControl\<close> reads the potentiometer and writes the PWM duty of the
  output-enable pin; it touches neither the state nor the RTC and is left out, as is the
  closing \<open>delay(1)\<close>.
\<close>

record tick_input =
  hourPin :: pin_level
  minutePin :: pin_level
  millisButtons :: u32
  millisLoop :: u32

definition loop :: "tick_input \<Rightarrow> clock_state \<Rightarrow> clock_state" where
  "loop i s =
     (let s1 = handleTimeAdjustButtons (hourPin i) (minutePin i) (millisButtons i) s;
          timeNow = millisLoop i
      in if (timeNow - lastRTCQueryTime s1) > RTC_QUERY_PERIOD_MILLIS then
           if timeLocallyUpdated s1 = False then
             (updateDisplayFromRTC s1)\<lparr>lastRTCQueryTime := timeNow\<rparr>
           else s1
         else s1)"

text \<open>The passes of \<open>loop\<close> over a list of inputs, first input first.\<close>

fun run :: "tick_input list \<Rightarrow> clock_state \<Rightarrow> clock_state" where
  "run [] s = s"
| "run (i # is) s = run is (loop i s)"

section \<open>Reading the trace\<close>

definition count_event :: "event \<Rightarrow> clock_state \<Rightarrow> nat" where
  "count_event e s = length (filter (\<lambda>x. x = e) (trace s))"

fun is_adjust :: "event \<Rightarrow> bool" where
  "is_adjust (RtcAdjust dt) = True"
| "is_adjust e = False"

definition rtc_writes :: "clock_state \<Rightarrow> event list" where
  "rtc_writes s = filter is_adjust (trace s)"

section \<open>The encoder as the specification words it\<close>

text \<open>
  The specification's rule for the hour, written from its words to be compared with
  \<open>updateLocalWordRegister\<close>: the hour is normalised as \<open>hour mod 12\<close> with 0 mapped
  to 12, the hour after \<open>h\<close> is \<open>h + 1\<close> with 12 wrapping to 1, and the word for hour
  \<open>h\<close> (from 1 to 12) is the \<open>h\<close>-th of the twelve hour words.
\<close>

definition spec_normalize_hour :: "u8 \<Rightarrow> u8" where
  "spec_normalize_hour hour = (let h = hour mod 12 in if h = 0 then 12 else h)"

definition spec_next_hour :: "u8 \<Rightarrow> u8" where
  "spec_next_hour h = (if h = 12 then 1 else h + 1)"

definition spec_hour_word :: "u8 \<Rightarrow> word_bit_map" where
  "spec_hour_word h = hour_words ! (unat h - 1)"

text \<open>Some RTC chip, for concrete instances.\<close>

definition some_chip :: RTC_DS3231 where
  "some_chip =
     \<lparr>rtc_time = \<lparr>dt_year = 2024, dt_month = 2, dt_day = 29,
                   dt_hour = 17, dt_minute = 42, dt_second = 30\<rparr>,
      rtc_lost_power = False\<rparr>"

section \<open>Observations on one pass and on runs\<close>

text \<open>The trace entry left by \<open>updateDisplay\<close>: the three bytes of the encoded time.\<close>

definition shown :: "u8 \<Rightarrow> u8 \<Rightarrow> clock_state \<Rightarrow> event" where
  "shown h m s = Flush [getByte (localWordRegister (updateLocalWordRegister h m s)) 0,
                        getByte (localWordRegister (updateLocalWordRegister h m s)) 1,
                        getByte (localWordRegister (updateLocalWordRegister h m s)) 2]"

text \<open>
  The write-back path fires in a call of \<open>handleTimeAdjustButtons\<close> when the guard of its
  last block holds in the state that reaches that block.
\<close>

definition write_back_fires :: "pin_level \<Rightarrow> pin_level \<Rightarrow> u32 \<Rightarrow> clock_state \<Rightarrow> bool" where
  "write_back_fires hv mv t s =
     (let s1 = minuteButtonBlock mv t (hourButtonBlock hv t (debounceBlock hv mv t s))
      in timeLocallyUpdated s1 = True \<and> t > updateRTCTime s1
         \<and> hourButtonBeingHeld s1 = False \<and> minuteButtonBeingHeld s1 = False)"

text \<open>
  For how long the sampled level of a button has been constant at a call, as the
  debouncing block measures it.
\<close>

definition hour_level_age :: "pin_level \<Rightarrow> pin_level \<Rightarrow> u32 \<Rightarrow> clock_state \<Rightarrow> u32" where
  "hour_level_age hv mv t s = t - lastHourButtonChange (debounceBlock hv mv t s)"

definition minute_level_age :: "pin_level \<Rightarrow> pin_level \<Rightarrow> u32 \<Rightarrow> clock_state \<Rightarrow> u32" where
  "minute_level_age hv mv t s = t - lastMinuteButtonChange (debounceBlock hv mv t s)"

text \<open>
  A button toggles faster than the debounce interval over a list of passes when, at
  every pass, the level sampled there has been the same for no more than the interval.
  The two arguments are the level and the time of the last change before the list.
\<close>

fun hour_never_settles :: "pin_level \<Rightarrow> u32 \<Rightarrow> tick_input list \<Rightarrow> bool" where
  "hour_never_settles lv lc [] = True"
| "hour_never_settles lv lc (i # is) =
     (let lc' = (if hourPin i \<noteq> lv then millisButtons i else lc)
      in millisButtons i - lc' \<le> BUTTON_DEBOUNCE_MS \<and> hour_never_settles (hourPin i) lc' is)"

fun minute_never_settles :: "pin_level \<Rightarrow> u32 \<Rightarrow> tick_input list \<Rightarrow> bool" where
  "minute_never_settles lv lc [] = True"
| "minute_never_settles lv lc (i # is) =
     (let lc' = (if minutePin i \<noteq> lv then millisButtons i else lc)
      in millisButtons i - lc' \<le> BUTTON_DEBOUNCE_MS
         \<and> minute_never_settles (minutePin i) lc' is)"

section \<open>Concrete runs\<close>

text \<open>
  A pass of the loop whose two readings of \<open>millis()\<close> agree; the clock after startup at
  time 0 on a chip that kept its time; the same clock after a pass with no button
  pressed at counter value \<open>0xFFFFF000\<close>, shortly before the counter wraps around;
  the chip after a loss of power; a chip that shows 23:59 and the clock started on it.
\<close>

definition tick :: "pin_level \<Rightarrow> pin_level \<Rightarrow> u32 \<Rightarrow> tick_input" where
  "tick hv mv t = \<lparr>hourPin = hv, minutePin = mv, millisButtons = t, millisLoop = t\<rparr>"

definition booted :: clock_state where
  "booted = setup_sketch 0 (initial_state some_chip)"

definition idle_near_wrap :: clock_state where
  "idle_near_wrap = run [tick HIGH HIGH 0xFFFFF000] booted"


definition chip_at_2359 :: RTC_DS3231 where
  "chip_at_2359 =
     \<lparr>rtc_time = \<lparr>dt_year = 2024, dt_month = 2, dt_day = 29,
                   dt_hour = 23, dt_minute = 59, dt_second = 10\<rparr>,
      rtc_lost_power = False\<rparr>"

definition booted_at_2359 :: clock_state where
  "booted_at_2359 = setup_sketch 0 (initial_state chip_at_2359)"

text \<open>
  One press of the minute button: low from 1000, recognised at 1060, released at 1100,
  the release recognised at 1160, then nothing until 6061.
\<close>

definition minute_press :: "tick_input list" where
  "minute_press = [tick HIGH LOW 1000, tick HIGH LOW 1060, tick HIGH HIGH 1100,
                   tick HIGH HIGH 1160, tick HIGH HIGH 6061]"

text \<open>
  One press of the hour button: low from 1000, recognised at 1060, released at 1100,
  the release recognised at 1160, then nothing until 6060.
\<close>

definition one_press :: "tick_input list" where
  "one_press = [tick LOW HIGH 1000, tick LOW HIGH 1060, tick HIGH HIGH 1100,
                tick HIGH HIGH 1160, tick HIGH HIGH 6060]"

text \<open>
  Both buttons together: low since 1000; recognised as pressed at 1060; released at
  1100. And both buttons bouncing after 1000: no level lasts longer than 40 ms.
\<close>

definition both_low :: clock_state where
  "both_low = run [tick LOW LOW 1000] booted"

definition both_held :: clock_state where
  "both_held = run [tick LOW LOW 1000, tick LOW LOW 1060] booted"

definition both_let_go :: clock_state where
  "both_let_go = run [tick LOW LOW 1000, tick LOW LOW 1060, tick HIGH HIGH 1100] booted"

definition both_chatter :: "tick_input list" where
  "both_chatter = [tick LOW LOW 1030, tick HIGH HIGH 1040, tick HIGH HIGH 1070,
                   tick LOW LOW 1080, tick LOW LOW 1120, tick HIGH HIGH 1130]"

text \<open>
  The hour button pressed and held, sampled at four passes, the last three one
  millisecond apart: once well away from the wrap-around of the counter, once 192 ms
  before it.
\<close>

definition hold_early :: "tick_input list" where
  "hold_early = [tick LOW HIGH 1000, tick LOW HIGH 1064, tick LOW HIGH 1065,
                 tick LOW HIGH 1066]"

definition hold_at_wrap :: "tick_input list" where
  "hold_at_wrap = [tick LOW HIGH 0xFFFFFF00, tick LOW HIGH 0xFFFFFF40,
                   tick LOW HIGH 0xFFFFFF41, tick LOW HIGH 0xFFFFFF42]"

text \<open>
  One press of the hour button 192 ms before the wrap-around: low from \<open>0xFFFFFF00\<close>,
  recognised at \<open>0xFFFFFF40\<close>, released one millisecond later, the release recognised
  at \<open>0xFFFFFF80\<close>.
\<close>

definition press_at_wrap :: "tick_input list" where
  "press_at_wrap = [tick LOW HIGH 0xFFFFFF00, tick LOW HIGH 0xFFFFFF40,
                    tick HIGH HIGH 0xFFFFFF41, tick HIGH HIGH 0xFFFFFF80]"

section \<open>Basic facts about the register\<close>

lemma bit_pos_inj: "bit_pos v = bit_pos w \<longleftrightarrow> v = w"
  by (cases v; cases w; simp)

lemma bit_pos_bound: "bit_pos w < 32"
  by (cases w; simp)

lemma enabled_enableWord [simp]:
  "enabled (enableWord w s) v \<longleftrightarrow> v = w \<or> enabled s v"
  using bit_pos_bound [of v]
  using bit_pos_bound [of w]
  by (auto simp: enabled_def enableWord_def Let_def bit_or_iff bit_exp_iff
                 bit_pos_inj possible_bit_word)

lemma enabled_disableAllWords [simp]: "\<not> enabled (disableAllWords s) v"
  by (simp add: enabled_def disableAllWords_def)


lemma u8_le_23_cases:
  assumes "(h :: u8) \<le> 23"
  shows "h \<in> {0,1,2,3,4,5,6,7,8,9,10,11,12,13,14,15,16,17,18,19,20,21,22,23}"
proof -
  from assms have "unat h \<le> 23"
    by (simp add: word_le_nat_alt)
  then have "unat h \<in> {0,1,2,3,4,5,6,7,8,9,10,11,12,13,14,15,16,17,18,19,20,21,22,23}"
    by (simp only: insert_iff empty_iff) arith
  then have "of_nat (unat h)
      \<in> (of_nat :: nat \<Rightarrow> u8) ` {0,1,2,3,4,5,6,7,8,9,10,11,12,13,14,15,16,17,18,19,20,21,22,23}"
    by (rule imageI)
  then show ?thesis by simp
qed

section \<open>What the encoder lights\<close>

text \<open>
  Each block of \<open>updateLocalWordRegister\<close> is characterised by the words it adds to the
  register; every property of the encoder below follows from these three lemmas.
\<close>

lemma enabled_minutePart:
  "enabled (minutePart minute s) v \<longleftrightarrow>
     enabled s v
   \<or> (v = OCLOCK \<and> minute < 5)
   \<or> (v = FIVE_M \<and> (5 \<le> minute \<and> minute < 10 \<or> 25 \<le> minute \<and> minute < 30
                    \<or> 35 \<le> minute \<and> minute < 40 \<or> 55 \<le> minute))
   \<or> (v = TEN_M \<and> (10 \<le> minute \<and> minute < 15 \<or> 50 \<le> minute \<and> minute < 55))
   \<or> (v = QUARTER_M \<and> (15 \<le> minute \<and> minute < 20 \<or> 45 \<le> minute \<and> minute < 50))
   \<or> (v = TWENTY_M \<and> (20 \<le> minute \<and> minute < 30 \<or> 35 \<le> minute \<and> minute < 45))
   \<or> (v = HALF_M \<and> 30 \<le> minute \<and> minute < 35)"
  unfolding minutePart_def
  by (auto simp add: word_less_nat_alt word_le_nat_alt)

lemma enabled_hourSwitchPast:
  "enabled (hourSwitchPast h s) v \<longleftrightarrow>
     enabled s v
   \<or> (h = 1 \<and> v = ONE_H) \<or> (h = 2 \<and> v = TWO_H) \<or> (h = 3 \<and> v = THREE_H)
   \<or> (h = 4 \<and> v = FOUR_H) \<or> (h = 5 \<and> v = FIVE_H) \<or> (h = 6 \<and> v = SIX_H)
   \<or> (h = 7 \<and> v = SEVEN_H) \<or> (h = 8 \<and> v = EIGHT_H) \<or> (h = 9 \<and> v = NINE_H)
   \<or> (h = 10 \<and> v = TEN_H) \<or> (h = 11 \<and> v = ELEVEN_H) \<or> (h = 12 \<and> v = TWELVE_H)"
  unfolding hourSwitchPast_def by auto

lemma enabled_hourSwitchTo:
  "enabled (hourSwitchTo h s) v \<longleftrightarrow>
     enabled s v
   \<or> (h = 1 \<and> v = TWO_H) \<or> (h = 2 \<and> v = THREE_H) \<or> (h = 3 \<and> v = FOUR_H)
   \<or> (h = 4 \<and> v = FIVE_H) \<or> (h = 5 \<and> v = SIX_H) \<or> (h = 6 \<and> v = SEVEN_H)
   \<or> (h = 7 \<and> v = EIGHT_H) \<or> (h = 8 \<and> v = NINE_H) \<or> (h = 9 \<and> v = TEN_H)
   \<or> (h = 10 \<and> v = ELEVEN_H) \<or> (h = 11 \<and> v = TWELVE_H) \<or> (h = 12 \<and> v = ONE_H)"
  unfolding hourSwitchTo_def by auto

lemmas enabled_update =
  updateLocalWordRegister_def Let_def enabled_minutePart enabled_hourSwitchPast
  enabled_hourSwitchTo

lemma hour_words_before_35:
  assumes "hour \<le> 23" and "minute < 35"
  shows "lit (updateLocalWordRegister hour minute s) hour_words
           = [spec_hour_word (spec_normalize_hour hour)]"
  using u8_le_23_cases [OF assms(1)] assms(2)
  by (elim insertE emptyE;
      simp add: lit_def hour_words_def enabled_update spec_hour_word_def
                spec_normalize_hour_def)

lemma hour_words_from_35:
  assumes "hour \<le> 23" and "35 \<le> minute"
  shows "lit (updateLocalWordRegister hour minute s) hour_words
           = [spec_hour_word (spec_next_hour (spec_normalize_hour hour))]"
  using u8_le_23_cases [OF assms(1)] assms(2)
  by (elim insertE emptyE;
      simp add: lit_def hour_words_def enabled_update spec_hour_word_def
                spec_normalize_hour_def spec_next_hour_def)

lemma spec_normalize_hour_range:
  assumes "hour \<le> 23"
  shows "1 \<le> spec_normalize_hour hour \<and> spec_normalize_hour hour \<le> 12"
  using u8_le_23_cases [OF assms]
  by (elim insertE emptyE; simp add: spec_normalize_hour_def)

text \<open>
  C1. For every hour from 0 to 23 and every minute from 0 to 59, the register written by
  \<open>updateLocalWordRegister\<close> has exactly one of the twelve hour words lit, has OCLOCK
  lit exactly when the minute is below 5, PAST exactly when the minute is from 5 to 34,
  and TO exactly when the minute is from 35 to 59.
\<close>

theorem encoder_one_hour_word_and_marker:
  assumes "hour \<le> 23" and "minute \<le> 59"
  shows "length (lit (updateLocalWordRegister hour minute s) hour_words) = 1
       \<and> (enabled (updateLocalWordRegister hour minute s) OCLOCK \<longleftrightarrow> minute < 5)
       \<and> (enabled (updateLocalWordRegister hour minute s) PAST
            \<longleftrightarrow> 5 \<le> minute \<and> minute < 35)
       \<and> (enabled (updateLocalWordRegister hour minute s) TO
            \<longleftrightarrow> 35 \<le> minute \<and> minute < 60)"
proof -
  have one: "length (lit (updateLocalWordRegister hour minute s) hour_words) = 1"
  proof (cases "minute < 35")
    case True
    then show ?thesis using hour_words_before_35 [OF assms(1)] by simp
  next
    case False
    then have "35 \<le> minute" by simp
    then show ?thesis using hour_words_from_35 [OF assms(1)] by simp
  qed
  have oclock: "enabled (updateLocalWordRegister hour minute s) OCLOCK \<longleftrightarrow> minute < 5"
    by (simp add: enabled_update)
  have past: "enabled (updateLocalWordRegister hour minute s) PAST
                \<longleftrightarrow> 5 \<le> minute \<and> minute < 35"
    by (auto simp add: enabled_update)
  have "minute < 60"
    using assms(2) by (simp add: word_less_nat_alt word_le_nat_alt)
  then have to: "enabled (updateLocalWordRegister hour minute s) TO
                \<longleftrightarrow> 35 \<le> minute \<and> minute < 60"
    by (auto simp add: enabled_update)
  from one oclock past to show ?thesis by blast
qed

theorem encoder_one_hour_word_and_marker_witness:
  "(17 :: u8) \<le> 23 \<and> (42 :: u8) \<le> 59
   \<and> length (lit (updateLocalWordRegister 17 42 (initial_state some_chip)) hour_words) = 1
   \<and> \<not> enabled (updateLocalWordRegister 17 42 (initial_state some_chip)) OCLOCK
   \<and> \<not> enabled (updateLocalWordRegister 17 42 (initial_state some_chip)) PAST
   \<and> enabled (updateLocalWordRegister 17 42 (initial_state some_chip)) TO"
proof -
  have h: "(17 :: u8) \<le> 23" and m: "(42 :: u8) \<le> 59" by simp_all
  show ?thesis
    using h m encoder_one_hour_word_and_marker [OF h m, of "initial_state some_chip"]
    by simp
qed

text \<open>
  C6. For every hour from 0 to 23 and every minute from 0 to 59: with \<open>h\<close> the hour
  modulo 12 and 0 mapped to 12 (a number from 1 to 12), a minute below 35 lights the
  word for hour \<open>h\<close> and no other hour word, with PAST exactly when the minute is at
  least 5; a minute from 35 on lights TO and the word for the hour after \<open>h\<close>, 12
  wrapping to 1, and no other hour word. In particular 0:40 and 12:40 both light ONE_H
  and TO.
\<close>

theorem encoder_follows_hour_rule:
  assumes "hour \<le> 23" and "minute \<le> 59"
  shows "1 \<le> spec_normalize_hour hour \<and> spec_normalize_hour hour \<le> 12
       \<and> (minute < 35 \<longrightarrow>
            lit (updateLocalWordRegister hour minute s) hour_words
              = [spec_hour_word (spec_normalize_hour hour)]
          \<and> (enabled (updateLocalWordRegister hour minute s) PAST \<longleftrightarrow> 5 \<le> minute)
          \<and> \<not> enabled (updateLocalWordRegister hour minute s) TO)
       \<and> (35 \<le> minute \<longrightarrow>
            lit (updateLocalWordRegister hour minute s) hour_words
              = [spec_hour_word (spec_next_hour (spec_normalize_hour hour))]
          \<and> enabled (updateLocalWordRegister hour minute s) TO
          \<and> \<not> enabled (updateLocalWordRegister hour minute s) PAST)
       \<and> lit (updateLocalWordRegister 0 40 s) hour_words = [ONE_H]
       \<and> enabled (updateLocalWordRegister 0 40 s) TO
       \<and> lit (updateLocalWordRegister 12 40 s) hour_words = [ONE_H]
       \<and> enabled (updateLocalWordRegister 12 40 s) TO"
proof -
  have before: "minute < 35 \<longrightarrow>
            lit (updateLocalWordRegister hour minute s) hour_words
              = [spec_hour_word (spec_normalize_hour hour)]
          \<and> (enabled (updateLocalWordRegister hour minute s) PAST \<longleftrightarrow> 5 \<le> minute)
          \<and> \<not> enabled (updateLocalWordRegister hour minute s) TO"
    using hour_words_before_35 [OF assms(1), of minute s]
    by (auto simp add: enabled_update)
  have after: "35 \<le> minute \<longrightarrow>
            lit (updateLocalWordRegister hour minute s) hour_words
              = [spec_hour_word (spec_next_hour (spec_normalize_hour hour))]
          \<and> enabled (updateLocalWordRegister hour minute s) TO
          \<and> \<not> enabled (updateLocalWordRegister hour minute s) PAST"
    using hour_words_from_35 [OF assms(1), of minute s]
    by (auto simp add: enabled_update)
  have zero: "lit (updateLocalWordRegister 0 40 s) hour_words = [ONE_H]
       \<and> enabled (updateLocalWordRegister 0 40 s) TO"
    by (simp add: lit_def hour_words_def enabled_update)
  have twelve: "lit (updateLocalWordRegister 12 40 s) hour_words = [ONE_H]
       \<and> enabled (updateLocalWordRegister 12 40 s) TO"
    by (simp add: lit_def hour_words_def enabled_update)
  from spec_normalize_hour_range [OF assms(1)] before after zero twelve
  show ?thesis by blast
qed

theorem encoder_follows_hour_rule_witness:
  "(23 :: u8) \<le> 23 \<and> (59 :: u8) \<le> 59 \<and> (35 :: u8) \<le> 59
   \<and> spec_normalize_hour 23 = 11
   \<and> lit (updateLocalWordRegister 23 59 (initial_state some_chip)) hour_words = [TWELVE_H]
   \<and> enabled (updateLocalWordRegister 23 59 (initial_state some_chip)) TO
   \<and> \<not> enabled (updateLocalWordRegister 23 59 (initial_state some_chip)) PAST"
proof -
  have h: "(23 :: u8) \<le> 23" and m: "(59 :: u8) \<le> 59" by simp_all
  have n: "spec_normalize_hour 23 = 11"
    by (simp add: spec_normalize_hour_def)
  have w: "spec_hour_word (spec_next_hour 11) = TWELVE_H"
    by (simp add: spec_hour_word_def spec_next_hour_def hour_words_def)
  show ?thesis
    using h m n w encoder_follows_hour_rule [OF h m, of "initial_state some_chip"]
    by simp
qed

text \<open>
  C9. For every hour (from 0 to 23, and for any other value of the 8-bit argument as
  well), every minute \<open>m1\<close> of bucket 5 (25 to 29) and every minute \<open>m2\<close> of bucket 7
  (35 to 39): the minute words lit for \<open>m1\<close> and for \<open>m2\<close> are the same, exactly
  TWENTY_M and FIVE_M. In particular the minute words for minute 27 and for minute 37
  are equal, both that pair.
\<close>

theorem minute_words_buckets_5_and_7:
  assumes "25 \<le> m1" and "m1 \<le> 29" and "35 \<le> m2" and "m2 \<le> 39"
  shows "lit (updateLocalWordRegister hour m1 s) minute_words = [TWENTY_M, FIVE_M]
       \<and> lit (updateLocalWordRegister hour m2 s) minute_words = [TWENTY_M, FIVE_M]
       \<and> lit (updateLocalWordRegister hour m2 s) minute_words
           = lit (updateLocalWordRegister hour m1 s) minute_words
       \<and> lit (updateLocalWordRegister hour 27 s) minute_words = [TWENTY_M, FIVE_M]
       \<and> lit (updateLocalWordRegister hour 37 s) minute_words
           = lit (updateLocalWordRegister hour 27 s) minute_words"
proof -
  from assms(1,2) have b5: "25 \<le> unat m1" "unat m1 \<le> 29"
    by (simp_all add: word_le_nat_alt)
  from assms(3,4) have b7: "35 \<le> unat m2" "unat m2 \<le> 39"
    by (simp_all add: word_le_nat_alt)
  have one: "lit (updateLocalWordRegister hour m1 s) minute_words = [TWENTY_M, FIVE_M]"
    using b5
    by (simp add: lit_def minute_words_def enabled_update word_less_nat_alt word_le_nat_alt)
  have two: "lit (updateLocalWordRegister hour m2 s) minute_words = [TWENTY_M, FIVE_M]"
    using b7
    by (simp add: lit_def minute_words_def enabled_update word_less_nat_alt word_le_nat_alt)
  have lit27: "lit (updateLocalWordRegister hour 27 s) minute_words = [TWENTY_M, FIVE_M]"
    by (simp add: lit_def minute_words_def enabled_update)
  have lit37: "lit (updateLocalWordRegister hour 37 s) minute_words = [TWENTY_M, FIVE_M]"
    by (simp add: lit_def minute_words_def enabled_update)
  from one two lit27 lit37 show ?thesis by simp
qed

theorem minute_words_buckets_5_and_7_witness:
  "(25 :: u8) \<le> 25 \<and> (25 :: u8) \<le> 29 \<and> (35 :: u8) \<le> 39 \<and> (39 :: u8) \<le> 39
 \<and> (25 :: u8) \<le> 29 \<and> (29 :: u8) \<le> 29 \<and> (35 :: u8) \<le> 35
 \<and> lit (updateLocalWordRegister 9 25 (initial_state some_chip)) minute_words
      = [TWENTY_M, FIVE_M]
 \<and> lit (updateLocalWordRegister 9 39 (initial_state some_chip)) minute_words
      = [TWENTY_M, FIVE_M]
 \<and> lit (updateLocalWordRegister 9 29 (initial_state some_chip)) minute_words
      = [TWENTY_M, FIVE_M]
 \<and> lit (updateLocalWordRegister 9 35 (initial_state some_chip)) minute_words
      = [TWENTY_M, FIVE_M]
 \<and> lit (updateLocalWordRegister 9 37 (initial_state some_chip)) minute_words
      = lit (updateLocalWordRegister 9 27 (initial_state some_chip)) minute_words"
proof -
  have a: "(25 :: u8) \<le> 25" "(25 :: u8) \<le> 29" "(35 :: u8) \<le> 39" "(39 :: u8) \<le> 39"
    by simp_all
  have b: "(25 :: u8) \<le> 29" "(29 :: u8) \<le> 29" "(35 :: u8) \<le> 35" "(35 :: u8) \<le> 39"
    by simp_all
  show ?thesis
    using minute_words_buckets_5_and_7 [OF a, of 9 "initial_state some_chip"]
          minute_words_buckets_5_and_7 [OF b, of 9 "initial_state some_chip"]
    by simp
qed

text \<open>
  Within an hour, the two buckets are the only minutes worded TWENTY_M and FIVE_M.
\<close>

lemma minute_words_twenty_five_only_in_buckets:
  assumes "minute \<le> 59"
  shows "lit (updateLocalWordRegister hour minute s) minute_words = [TWENTY_M, FIVE_M]
         \<longleftrightarrow> 25 \<le> minute \<and> minute \<le> 29 \<or> 35 \<le> minute \<and> minute \<le> 39"
  using assms
  by (auto simp add: lit_def minute_words_def enabled_update word_less_nat_alt word_le_nat_alt)

text \<open>
  C10. MINUTES is a member of the enumeration, at bit 15, and no hour and minute make
  \<open>updateLocalWordRegister\<close> light it: not those from 0 to 23 and from 0 to 59, and no
  other value of the two 8-bit arguments either.
\<close>

theorem MINUTES_never_enabled:
  "bit_pos MINUTES = 15
   \<and> \<not> enabled (updateLocalWordRegister hour minute s) MINUTES"
  by (simp add: enabled_update)

section \<open>The display update changes the register and the trace only\<close>

lemma enableWord_frame:
  "enableWord w (s\<lparr>localWordRegister := q\<rparr>)
     = s\<lparr>localWordRegister := q OR push_bit (bit_pos w) 1\<rparr>"
  by (simp add: enableWord_def)

lemma frame_if:
  assumes "\<exists>r. a = s\<lparr>localWordRegister := r\<rparr>" and "\<exists>r. b = s\<lparr>localWordRegister := r\<rparr>"
  shows "\<exists>r. (if c then a else b) = s\<lparr>localWordRegister := r\<rparr>"
  using assms by simp

lemma frame_refl: "\<exists>r. s\<lparr>localWordRegister := q\<rparr> = s\<lparr>localWordRegister := r\<rparr>"
  by (rule exI) (rule refl)

lemma minutePart_frame:
  "\<exists>r. minutePart m (s\<lparr>localWordRegister := q\<rparr>) = s\<lparr>localWordRegister := r\<rparr>"
  unfolding minutePart_def enableWord_frame
  by (intro frame_if frame_refl)

lemma hourSwitchPast_frame:
  "\<exists>r. hourSwitchPast h (s\<lparr>localWordRegister := q\<rparr>) = s\<lparr>localWordRegister := r\<rparr>"
  unfolding hourSwitchPast_def enableWord_frame
  by (intro frame_if frame_refl)

lemma hourSwitchTo_frame:
  "\<exists>r. hourSwitchTo h (s\<lparr>localWordRegister := q\<rparr>) = s\<lparr>localWordRegister := r\<rparr>"
  unfolding hourSwitchTo_def enableWord_frame
  by (intro frame_if frame_refl)

lemma updateLocalWordRegister_frame:
  "\<exists>r. updateLocalWordRegister h m s = s\<lparr>localWordRegister := r\<rparr>"
proof -
  define hn where "hn = (if (if 12 < h then h - 12 else h) = 0 then 12
                         else (if 12 < h then h - 12 else h))"
  obtain r1 where r1: "minutePart m (s\<lparr>localWordRegister := 0\<rparr>) = s\<lparr>localWordRegister := r1\<rparr>"
    using minutePart_frame by blast
  have eq: "updateLocalWordRegister h m s =
     (if m < 35
      then hourSwitchPast hn (if 5 \<le> m then enableWord PAST (s\<lparr>localWordRegister := r1\<rparr>)
                              else s\<lparr>localWordRegister := r1\<rparr>)
      else hourSwitchTo hn (enableWord TO (s\<lparr>localWordRegister := r1\<rparr>)))"
    by (simp only: updateLocalWordRegister_def Let_def disableAllWords_def r1 hn_def)
  show ?thesis
    unfolding eq enableWord_frame
    by (intro frame_if hourSwitchPast_frame hourSwitchTo_frame
          ; simp only: if_distrib [of "hourSwitchPast hn"] hourSwitchPast_frame frame_if)
qed

lemma updateDisplay_eq:
  "updateDisplay h m s
     = s\<lparr>localWordRegister := localWordRegister (updateLocalWordRegister h m s),
          trace := trace s @ [shown h m s]\<rparr>"
proof -
  obtain r where r: "updateLocalWordRegister h m s = s\<lparr>localWordRegister := r\<rparr>"
    using updateLocalWordRegister_frame by blast
  show ?thesis
    by (simp add: updateDisplay_def flushWordRegister_def shown_def r)
qed

lemma is_adjust_shown [simp]: "\<not> is_adjust (shown h m s)"
  by (simp add: shown_def)

lemma shown_neq [simp]:
  "shown h m s \<noteq> AdvanceHour" "shown h m s \<noteq> AdvanceMinute" "shown h m s \<noteq> RtcNow"
  "shown h m s \<noteq> RtcAdjust dt"
  by (simp_all add: shown_def)

section \<open>The blocks of \<open>handleTimeAdjustButtons\<close>\<close>

lemma debounceBlock_eq:
  "debounceBlock hv mv t s =
     s\<lparr>lastHourButtonChange := (if hv \<noteq> lastHourButtonValue s then t else lastHourButtonChange s),
       lastMinuteButtonChange := (if mv \<noteq> lastMinuteButtonValue s then t else lastMinuteButtonChange s),
       lastHourButtonValue := hv, lastMinuteButtonValue := mv\<rparr>"
  by (simp add: debounceBlock_def Let_def)

lemmas block_defs =
  hourButtonBlock_def minuteButtonBlock_def writeBackBlock_def Let_def split_def
  updateDisplay_eq rtc_now_def rtc_adjust_def updateDisplayFromRTC_def

text \<open>A block that leaves its button not held has changed nothing else.\<close>

lemma hourButtonBlock_quiet:
  assumes "\<not> hourButtonBeingHeld (hourButtonBlock hv t s)"
  shows "hourButtonBlock hv t s = s\<lparr>hourButtonBeingHeld := False\<rparr>"
  using assms
  by (auto simp add: hourButtonBlock_def Let_def updateDisplay_eq split: if_splits)

lemma minuteButtonBlock_quiet:
  assumes "\<not> minuteButtonBeingHeld (minuteButtonBlock mv t s)"
  shows "minuteButtonBlock mv t s = s\<lparr>minuteButtonBeingHeld := False\<rparr>"
  using assms
  by (auto simp add: minuteButtonBlock_def Let_def updateDisplay_eq split_def split: if_splits)

text \<open>Which block adds which advance events.\<close>

lemma count_AdvanceHour_other_blocks:
  "count_event AdvanceHour (debounceBlock hv mv t s) = count_event AdvanceHour s"
  "count_event AdvanceHour (minuteButtonBlock mv t s) = count_event AdvanceHour s"
  "count_event AdvanceHour (writeBackBlock t s) = count_event AdvanceHour s"
  "count_event AdvanceHour (updateDisplayFromRTC s) = count_event AdvanceHour s"
  by (simp_all add: count_event_def debounceBlock_eq block_defs)

lemma count_AdvanceMinute_other_blocks:
  "count_event AdvanceMinute (debounceBlock hv mv t s) = count_event AdvanceMinute s"
  "count_event AdvanceMinute (hourButtonBlock hv t s) = count_event AdvanceMinute s"
  "count_event AdvanceMinute (writeBackBlock t s) = count_event AdvanceMinute s"
  "count_event AdvanceMinute (updateDisplayFromRTC s) = count_event AdvanceMinute s"
  by (simp_all add: count_event_def debounceBlock_eq block_defs)

text \<open>The variables of one button are not touched by the blocks of the other.\<close>

lemma hour_vars_minuteButtonBlock:
  "hourButtonBeingHeld (minuteButtonBlock mv t s) = hourButtonBeingHeld s"
  "nextHourAdvanceTime (minuteButtonBlock mv t s) = nextHourAdvanceTime s"
  "lastHourButtonChange (minuteButtonBlock mv t s) = lastHourButtonChange s"
  "lastHourButtonValue (minuteButtonBlock mv t s) = lastHourButtonValue s"
  by (simp_all add: block_defs)

lemma minute_vars_hourButtonBlock:
  "minuteButtonBeingHeld (hourButtonBlock hv t s) = minuteButtonBeingHeld s"
  "nextMinuteAdvanceTime (hourButtonBlock hv t s) = nextMinuteAdvanceTime s"
  "lastMinuteButtonChange (hourButtonBlock hv t s) = lastMinuteButtonChange s"
  "lastMinuteButtonValue (hourButtonBlock hv t s) = lastMinuteButtonValue s"
  by (simp_all add: block_defs)

lemma button_vars_writeBackBlock:
  "hourButtonBeingHeld (writeBackBlock t s) = hourButtonBeingHeld s"
  "nextHourAdvanceTime (writeBackBlock t s) = nextHourAdvanceTime s"
  "lastHourButtonChange (writeBackBlock t s) = lastHourButtonChange s"
  "lastHourButtonValue (writeBackBlock t s) = lastHourButtonValue s"
  "minuteButtonBeingHeld (writeBackBlock t s) = minuteButtonBeingHeld s"
  "nextMinuteAdvanceTime (writeBackBlock t s) = nextMinuteAdvanceTime s"
  "lastMinuteButtonChange (writeBackBlock t s) = lastMinuteButtonChange s"
  "lastMinuteButtonValue (writeBackBlock t s) = lastMinuteButtonValue s"
  by (simp_all add: block_defs)

lemma last_vars_own_block:
  "lastHourButtonChange (hourButtonBlock hv t s) = lastHourButtonChange s"
  "lastHourButtonValue (hourButtonBlock hv t s) = lastHourButtonValue s"
  "lastMinuteButtonChange (minuteButtonBlock mv t s) = lastMinuteButtonChange s"
  "lastMinuteButtonValue (minuteButtonBlock mv t s) = lastMinuteButtonValue s"
  by (simp_all add: block_defs)

lemma last_vars_updateDisplayFromRTC:
  "lastHourButtonChange (updateDisplayFromRTC s) = lastHourButtonChange s"
  "lastHourButtonValue (updateDisplayFromRTC s) = lastHourButtonValue s"
  "lastMinuteButtonChange (updateDisplayFromRTC s) = lastMinuteButtonChange s"
  "lastMinuteButtonValue (updateDisplayFromRTC s) = lastMinuteButtonValue s"
  by (simp_all add: block_defs)

text \<open>The five ways through the block of the hour button.\<close>

lemma hourButtonBlock_cases:
  shows hb_unsettled:
      "t - lastHourButtonChange s \<le> BUTTON_DEBOUNCE_MS \<Longrightarrow> hourButtonBlock hv t s = s"
    and hb_released:
      "t - lastHourButtonChange s > BUTTON_DEBOUNCE_MS \<Longrightarrow>
         count_event AdvanceHour (hourButtonBlock HIGH t s) = count_event AdvanceHour s
         \<and> \<not> hourButtonBeingHeld (hourButtonBlock HIGH t s)"
    and hb_pressed:
      "t - lastHourButtonChange s > BUTTON_DEBOUNCE_MS \<Longrightarrow> \<not> hourButtonBeingHeld s \<Longrightarrow>
         count_event AdvanceHour (hourButtonBlock LOW t s) = count_event AdvanceHour s + 1
         \<and> hourButtonBeingHeld (hourButtonBlock LOW t s)
         \<and> nextHourAdvanceTime (hourButtonBlock LOW t s) = t + BUTTON_HOLD_ACTION_REPEAT_PERIOD"
    and hb_repeat:
      "t - lastHourButtonChange s > BUTTON_DEBOUNCE_MS \<Longrightarrow> hourButtonBeingHeld s \<Longrightarrow>
       nextHourAdvanceTime s \<le> t \<Longrightarrow>
         count_event AdvanceHour (hourButtonBlock LOW t s) = count_event AdvanceHour s + 1
         \<and> hourButtonBeingHeld (hourButtonBlock LOW t s)
         \<and> nextHourAdvanceTime (hourButtonBlock LOW t s) = t + BUTTON_HOLD_ACTION_REPEAT_PERIOD"
    and hb_waiting:
      "t - lastHourButtonChange s > BUTTON_DEBOUNCE_MS \<Longrightarrow> hourButtonBeingHeld s \<Longrightarrow>
       t < nextHourAdvanceTime s \<Longrightarrow> hourButtonBlock LOW t s = s"
  by (simp_all add: hourButtonBlock_def Let_def updateDisplay_eq count_event_def)

lemma hour_part_of_pass:
  "count_event AdvanceHour (handleTimeAdjustButtons hv mv t s)
     = count_event AdvanceHour (hourButtonBlock hv t (debounceBlock hv mv t s))"
  "hourButtonBeingHeld (handleTimeAdjustButtons hv mv t s)
     = hourButtonBeingHeld (hourButtonBlock hv t (debounceBlock hv mv t s))"
  "nextHourAdvanceTime (handleTimeAdjustButtons hv mv t s)
     = nextHourAdvanceTime (hourButtonBlock hv t (debounceBlock hv mv t s))"
  by (simp_all add: handleTimeAdjustButtons_def count_AdvanceHour_other_blocks
      hour_vars_minuteButtonBlock button_vars_writeBackBlock)

lemma hour_vars_debounceBlock:
  "count_event AdvanceHour (debounceBlock hv mv t s) = count_event AdvanceHour s"
  "hourButtonBeingHeld (debounceBlock hv mv t s) = hourButtonBeingHeld s"
  "nextHourAdvanceTime (debounceBlock hv mv t s) = nextHourAdvanceTime s"
  by (simp_all add: debounceBlock_eq count_event_def)

section \<open>The minute button, and one call seen from each button\<close>

text \<open>The five ways through the block of the minute button.\<close>

lemma minuteButtonBlock_cases:
  shows mb_unsettled:
      "t - lastMinuteButtonChange s \<le> BUTTON_DEBOUNCE_MS \<Longrightarrow> minuteButtonBlock mv t s = s"
    and mb_released:
      "t - lastMinuteButtonChange s > BUTTON_DEBOUNCE_MS \<Longrightarrow>
         count_event AdvanceMinute (minuteButtonBlock HIGH t s) = count_event AdvanceMinute s
         \<and> \<not> minuteButtonBeingHeld (minuteButtonBlock HIGH t s)"
    and mb_pressed:
      "t - lastMinuteButtonChange s > BUTTON_DEBOUNCE_MS \<Longrightarrow> \<not> minuteButtonBeingHeld s \<Longrightarrow>
         count_event AdvanceMinute (minuteButtonBlock LOW t s) = count_event AdvanceMinute s + 1
         \<and> minuteButtonBeingHeld (minuteButtonBlock LOW t s)
         \<and> nextMinuteAdvanceTime (minuteButtonBlock LOW t s)
             = t + BUTTON_HOLD_ACTION_REPEAT_PERIOD"
    and mb_repeat:
      "t - lastMinuteButtonChange s > BUTTON_DEBOUNCE_MS \<Longrightarrow> minuteButtonBeingHeld s \<Longrightarrow>
       nextMinuteAdvanceTime s \<le> t \<Longrightarrow>
         count_event AdvanceMinute (minuteButtonBlock LOW t s) = count_event AdvanceMinute s + 1
         \<and> minuteButtonBeingHeld (minuteButtonBlock LOW t s)
         \<and> nextMinuteAdvanceTime (minuteButtonBlock LOW t s)
             = t + BUTTON_HOLD_ACTION_REPEAT_PERIOD"
    and mb_waiting:
      "t - lastMinuteButtonChange s > BUTTON_DEBOUNCE_MS \<Longrightarrow> minuteButtonBeingHeld s \<Longrightarrow>
       t < nextMinuteAdvanceTime s \<Longrightarrow> minuteButtonBlock LOW t s = s"
  by (simp_all add: minuteButtonBlock_def Let_def split_def updateDisplay_eq count_event_def)

lemma minute_part_of_pass:
  "count_event AdvanceMinute (handleTimeAdjustButtons hv mv t s)
     = count_event AdvanceMinute
         (minuteButtonBlock mv t (hourButtonBlock hv t (debounceBlock hv mv t s)))"
  "minuteButtonBeingHeld (handleTimeAdjustButtons hv mv t s)
     = minuteButtonBeingHeld
         (minuteButtonBlock mv t (hourButtonBlock hv t (debounceBlock hv mv t s)))"
  "nextMinuteAdvanceTime (handleTimeAdjustButtons hv mv t s)
     = nextMinuteAdvanceTime
         (minuteButtonBlock mv t (hourButtonBlock hv t (debounceBlock hv mv t s)))"
  by (simp_all add: handleTimeAdjustButtons_def count_AdvanceMinute_other_blocks
      button_vars_writeBackBlock)

lemma minute_vars_before_block:
  "count_event AdvanceMinute (hourButtonBlock hv t (debounceBlock hv mv t s))
     = count_event AdvanceMinute s"
  "minuteButtonBeingHeld (hourButtonBlock hv t (debounceBlock hv mv t s))
     = minuteButtonBeingHeld s"
  "nextMinuteAdvanceTime (hourButtonBlock hv t (debounceBlock hv mv t s))
     = nextMinuteAdvanceTime s"
  "lastMinuteButtonChange (hourButtonBlock hv t (debounceBlock hv mv t s))
     = lastMinuteButtonChange (debounceBlock hv mv t s)"
  by (simp_all add: count_AdvanceMinute_other_blocks minute_vars_hourButtonBlock)
     (simp_all add: debounceBlock_eq)

text \<open>One call of \<open>handleTimeAdjustButtons\<close>, seen from each button.\<close>

lemma hour_button_pass:
  shows hour_unsettled:
      "hour_level_age hv mv t s \<le> BUTTON_DEBOUNCE_MS \<Longrightarrow>
         count_event AdvanceHour (handleTimeAdjustButtons hv mv t s) = count_event AdvanceHour s"
    and hour_released:
      "BUTTON_DEBOUNCE_MS < hour_level_age HIGH mv t s \<Longrightarrow>
         count_event AdvanceHour (handleTimeAdjustButtons HIGH mv t s) = count_event AdvanceHour s
         \<and> \<not> hourButtonBeingHeld (handleTimeAdjustButtons HIGH mv t s)"
    and hour_pressed:
      "BUTTON_DEBOUNCE_MS < hour_level_age LOW mv t s \<Longrightarrow> \<not> hourButtonBeingHeld s \<Longrightarrow>
         count_event AdvanceHour (handleTimeAdjustButtons LOW mv t s)
           = count_event AdvanceHour s + 1
         \<and> hourButtonBeingHeld (handleTimeAdjustButtons LOW mv t s)
         \<and> nextHourAdvanceTime (handleTimeAdjustButtons LOW mv t s)
           = t + BUTTON_HOLD_ACTION_REPEAT_PERIOD"
  unfolding hour_level_age_def hour_part_of_pass
  using hourButtonBlock_cases [of t "debounceBlock hv mv t s"]
        hourButtonBlock_cases [of t "debounceBlock HIGH mv t s"]
        hourButtonBlock_cases [of t "debounceBlock LOW mv t s"]
  by (simp_all add: hour_vars_debounceBlock)

lemma minute_button_pass:
  shows minute_unsettled:
      "minute_level_age hv mv t s \<le> BUTTON_DEBOUNCE_MS \<Longrightarrow>
         count_event AdvanceMinute (handleTimeAdjustButtons hv mv t s)
           = count_event AdvanceMinute s"
    and minute_released:
      "BUTTON_DEBOUNCE_MS < minute_level_age hv HIGH t s \<Longrightarrow>
         count_event AdvanceMinute (handleTimeAdjustButtons hv HIGH t s)
           = count_event AdvanceMinute s
         \<and> \<not> minuteButtonBeingHeld (handleTimeAdjustButtons hv HIGH t s)"
    and minute_pressed:
      "BUTTON_DEBOUNCE_MS < minute_level_age hv LOW t s \<Longrightarrow> \<not> minuteButtonBeingHeld s \<Longrightarrow>
         count_event AdvanceMinute (handleTimeAdjustButtons hv LOW t s)
           = count_event AdvanceMinute s + 1
         \<and> minuteButtonBeingHeld (handleTimeAdjustButtons hv LOW t s)
         \<and> nextMinuteAdvanceTime (handleTimeAdjustButtons hv LOW t s)
           = t + BUTTON_HOLD_ACTION_REPEAT_PERIOD"
  unfolding minute_level_age_def minute_part_of_pass
  using minuteButtonBlock_cases [of t "hourButtonBlock hv t (debounceBlock hv mv t s)"]
        minuteButtonBlock_cases [of t "hourButtonBlock hv t (debounceBlock hv HIGH t s)"]
        minuteButtonBlock_cases [of t "hourButtonBlock hv t (debounceBlock hv LOW t s)"]
  by (simp_all add: minute_vars_before_block)

text \<open>Deadlines and elapsed time when the counter does not wrap around.\<close>

lemma deadline_reached_iff:
  fixes t0 :: u32
  assumes "unat t0 + d < 2 ^ 32" and "unat t0 + unat p < 2 ^ 32"
  shows "t0 + p \<le> t0 + of_nat d \<longleftrightarrow> unat p \<le> d"
proof -
  from assms(1) have d: "d < 2 ^ 32" by simp
  then have ud: "unat (of_nat d :: u32) = d"
    by (simp add: unat_of_nat)
  have "unat (t0 + of_nat d) = unat t0 + d"
    using assms(1) ud unat_add_lem [of t0 "of_nat d"] by simp
  moreover have "unat (t0 + p) = unat t0 + unat p"
    using assms(2) unat_add_lem [of t0 p] by simp
  ultimately show ?thesis
    by (simp add: word_le_nat_alt)
qed

lemma elapsed_by_subtraction:
  fixes t0 :: u32
  assumes "d < 2 ^ 32"
  shows "unat ((t0 + of_nat d) - t0) = d"
  using assms by (simp add: unat_of_nat)

lemma subtraction_test_is_elapsed_time:
  fixes t0 p :: u32
  assumes "d < 2 ^ 32"
  shows "p < (t0 + of_nat d) - t0 \<longleftrightarrow> unat p < d"
  using elapsed_by_subtraction [OF assms, of t0]
  by (simp only: word_less_nat_alt)

lemma hour_held_repeat:
  assumes age: "BUTTON_DEBOUNCE_MS < hour_level_age LOW mv t s"
      and held: "hourButtonBeingHeld s"
      and armed: "nextHourAdvanceTime s = t0 + BUTTON_HOLD_ACTION_REPEAT_PERIOD"
      and now: "t = t0 + of_nat d"
      and nowrap: "unat t0 + d < 2 ^ 32" "unat t0 + 1000 < 2 ^ 32"
  shows "hourButtonBeingHeld (handleTimeAdjustButtons LOW mv t s)
       \<and> (if 1000 \<le> d
          then count_event AdvanceHour (handleTimeAdjustButtons LOW mv t s)
                 = count_event AdvanceHour s + 1
             \<and> nextHourAdvanceTime (handleTimeAdjustButtons LOW mv t s)
                 = t + BUTTON_HOLD_ACTION_REPEAT_PERIOD
          else count_event AdvanceHour (handleTimeAdjustButtons LOW mv t s)
                 = count_event AdvanceHour s
             \<and> nextHourAdvanceTime (handleTimeAdjustButtons LOW mv t s)
                 = nextHourAdvanceTime s)"
proof -
  let ?sd = "debounceBlock LOW mv t s"
  have reached: "nextHourAdvanceTime s \<le> t \<longleftrightarrow> 1000 \<le> d"
    unfolding armed now using nowrap
    by (subst deadline_reached_iff) (simp_all add: BUTTON_HOLD_ACTION_REPEAT_PERIOD_def)
  have age': "BUTTON_DEBOUNCE_MS < t - lastHourButtonChange ?sd"
    using age by (simp add: hour_level_age_def)
  have held': "hourButtonBeingHeld ?sd"
    using held by (simp add: hour_vars_debounceBlock)
  show ?thesis
  proof (cases "1000 \<le> d")
    case True
    with reached have "nextHourAdvanceTime ?sd \<le> t"
      by (simp add: hour_vars_debounceBlock)
    from hb_repeat [OF age' held' this] True show ?thesis
      by (simp add: hour_part_of_pass hour_vars_debounceBlock)
  next
    case False
    with reached have "t < nextHourAdvanceTime ?sd"
      by (simp add: hour_vars_debounceBlock)
    from hb_waiting [OF age' held' this] False held show ?thesis
      by (simp add: hour_part_of_pass hour_vars_debounceBlock)
  qed
qed

lemma minute_held_repeat:
  assumes age: "BUTTON_DEBOUNCE_MS < minute_level_age hv LOW t s"
      and held: "minuteButtonBeingHeld s"
      and armed: "nextMinuteAdvanceTime s = t0 + BUTTON_HOLD_ACTION_REPEAT_PERIOD"
      and now: "t = t0 + of_nat d"
      and nowrap: "unat t0 + d < 2 ^ 32" "unat t0 + 1000 < 2 ^ 32"
  shows "minuteButtonBeingHeld (handleTimeAdjustButtons hv LOW t s)
       \<and> (if 1000 \<le> d
          then count_event AdvanceMinute (handleTimeAdjustButtons hv LOW t s)
                 = count_event AdvanceMinute s + 1
             \<and> nextMinuteAdvanceTime (handleTimeAdjustButtons hv LOW t s)
                 = t + BUTTON_HOLD_ACTION_REPEAT_PERIOD
          else count_event AdvanceMinute (handleTimeAdjustButtons hv LOW t s)
                 = count_event AdvanceMinute s
             \<and> nextMinuteAdvanceTime (handleTimeAdjustButtons hv LOW t s)
                 = nextMinuteAdvanceTime s)"
proof -
  let ?sh = "hourButtonBlock hv t (debounceBlock hv LOW t s)"
  have reached: "nextMinuteAdvanceTime s \<le> t \<longleftrightarrow> 1000 \<le> d"
    unfolding armed now using nowrap
    by (subst deadline_reached_iff) (simp_all add: BUTTON_HOLD_ACTION_REPEAT_PERIOD_def)
  have age': "BUTTON_DEBOUNCE_MS < t - lastMinuteButtonChange ?sh"
    using age by (simp add: minute_level_age_def minute_vars_before_block)
  have held': "minuteButtonBeingHeld ?sh"
    using held by (simp add: minute_vars_before_block)
  show ?thesis
  proof (cases "1000 \<le> d")
    case True
    with reached have "nextMinuteAdvanceTime ?sh \<le> t"
      by (simp add: minute_vars_before_block)
    from mb_repeat [OF age' held' this] True show ?thesis
      by (simp add: minute_part_of_pass minute_vars_before_block)
  next
    case False
    with reached have "t < nextMinuteAdvanceTime ?sh"
      by (simp add: minute_vars_before_block)
    from mb_waiting [OF age' held' this] False held show ?thesis
      by (simp add: minute_part_of_pass minute_vars_before_block)
  qed
qed

section \<open>Runs\<close>

lemma loop_button_vars:
  "lastHourButtonValue (loop i s) = hourPin i"
  "lastHourButtonChange (loop i s)
     = (if hourPin i \<noteq> lastHourButtonValue s then millisButtons i else lastHourButtonChange s)"
  "lastMinuteButtonValue (loop i s) = minutePin i"
  "lastMinuteButtonChange (loop i s)
     = (if minutePin i \<noteq> lastMinuteButtonValue s then millisButtons i
        else lastMinuteButtonChange s)"
  by (simp_all add: loop_def Let_def handleTimeAdjustButtons_def last_vars_updateDisplayFromRTC
      button_vars_writeBackBlock hour_vars_minuteButtonBlock minute_vars_hourButtonBlock
      last_vars_own_block)
     (simp_all add: debounceBlock_eq)

lemma loop_advance_events:
  "count_event AdvanceHour (loop i s)
     = count_event AdvanceHour (handleTimeAdjustButtons (hourPin i) (minutePin i) (millisButtons i) s)"
  "count_event AdvanceMinute (loop i s)
     = count_event AdvanceMinute (handleTimeAdjustButtons (hourPin i) (minutePin i) (millisButtons i) s)"
proof -
  have upd: "count_event e (x\<lparr>lastRTCQueryTime := q\<rparr>) = count_event e x" for e x q
    by (simp add: count_event_def)
  show "count_event AdvanceHour (loop i s)
     = count_event AdvanceHour (handleTimeAdjustButtons (hourPin i) (minutePin i) (millisButtons i) s)"
    by (simp add: loop_def Let_def upd count_AdvanceHour_other_blocks)
  show "count_event AdvanceMinute (loop i s)
     = count_event AdvanceMinute (handleTimeAdjustButtons (hourPin i) (minutePin i) (millisButtons i) s)"
    by (simp add: loop_def Let_def upd count_AdvanceMinute_other_blocks)
qed

lemma hour_never_settles_no_event:
  "hour_never_settles (lastHourButtonValue s) (lastHourButtonChange s) ticks
   \<Longrightarrow> count_event AdvanceHour (run ticks s) = count_event AdvanceHour s"
proof (induction ticks arbitrary: s)
  case Nil
  then show ?case by simp
next
  case (Cons i ticks)
  let ?lc = "if hourPin i \<noteq> lastHourButtonValue s then millisButtons i
             else lastHourButtonChange s"
  from Cons.prems have age: "millisButtons i - ?lc \<le> BUTTON_DEBOUNCE_MS"
    and rest: "hour_never_settles (hourPin i) ?lc ticks"
    by (simp_all add: Let_def)
  have "hour_level_age (hourPin i) (minutePin i) (millisButtons i) s \<le> BUTTON_DEBOUNCE_MS"
    using age by (simp add: hour_level_age_def debounceBlock_eq)
  then have step: "count_event AdvanceHour (loop i s) = count_event AdvanceHour s"
    by (simp add: hour_unsettled loop_advance_events)
  from rest have "hour_never_settles (lastHourButtonValue (loop i s))
                    (lastHourButtonChange (loop i s)) ticks"
    by (simp add: loop_button_vars)
  then have "count_event AdvanceHour (run ticks (loop i s)) = count_event AdvanceHour (loop i s)"
    by (rule Cons.IH)
  with step show ?case by simp
qed

lemma minute_never_settles_no_event:
  "minute_never_settles (lastMinuteButtonValue s) (lastMinuteButtonChange s) ticks
   \<Longrightarrow> count_event AdvanceMinute (run ticks s) = count_event AdvanceMinute s"
proof (induction ticks arbitrary: s)
  case Nil
  then show ?case by simp
next
  case (Cons i ticks)
  let ?lc = "if minutePin i \<noteq> lastMinuteButtonValue s then millisButtons i
             else lastMinuteButtonChange s"
  let ?sd = "debounceBlock (hourPin i) (minutePin i) (millisButtons i) s"
  from Cons.prems have age: "millisButtons i - ?lc \<le> BUTTON_DEBOUNCE_MS"
    and rest: "minute_never_settles (minutePin i) ?lc ticks"
    by (simp_all add: Let_def)
  have "millisButtons i - lastMinuteButtonChange (hourButtonBlock (hourPin i) (millisButtons i) ?sd)
          \<le> BUTTON_DEBOUNCE_MS"
    using age by (simp add: minute_vars_hourButtonBlock) (simp add: debounceBlock_eq)
  then have "minuteButtonBlock (minutePin i) (millisButtons i)
               (hourButtonBlock (hourPin i) (millisButtons i) ?sd)
             = hourButtonBlock (hourPin i) (millisButtons i) ?sd"
    by (rule mb_unsettled)
  then have step: "count_event AdvanceMinute (loop i s) = count_event AdvanceMinute s"
    by (simp add: loop_advance_events minute_part_of_pass count_AdvanceMinute_other_blocks)
  from rest have "minute_never_settles (lastMinuteButtonValue (loop i s))
                    (lastMinuteButtonChange (loop i s)) ticks"
    by (simp add: loop_button_vars)
  then have "count_event AdvanceMinute (run ticks (loop i s))
               = count_event AdvanceMinute (loop i s)"
    by (rule Cons.IH)
  with step show ?case by simp
qed

section \<open>Evaluating concrete runs\<close>

lemmas eval_defs =
  booted_def tick_def loop_def handleTimeAdjustButtons_def
  debounceBlock_eq hourButtonBlock_def minuteButtonBlock_def writeBackBlock_def
  updateDisplayFromRTC_def rtc_now_def rtc_adjust_def rtc_lostPower_def
  setup_sketch_def initial_state_def some_chip_def Let_def updateDisplay_eq
  BUTTON_DEBOUNCE_MS_def BUTTON_HOLD_ACTION_REPEAT_PERIOD_def
  BUTTON_INACTION_RTC_UPDATE_DELAY_def RTC_QUERY_PERIOD_MILLIS_def MS_PER_SECOND_def
  advanceHour_def advanceMinute_def count_event_def rtc_writes_def

lemmas run_defs =
  one_press_def both_low_def both_held_def both_let_go_def both_chatter_def
  idle_near_wrap_def hold_early_def hold_at_wrap_def press_at_wrap_def eval_defs

section \<open>Advancing the time\<close>

lemma advanceHour_range: "advanceHour hour \<le> 23"
  by (simp add: advanceHour_def word_less_nat_alt word_le_nat_alt unat_word_ariths)

lemma advanceHour_23: "advanceHour 23 = 0"
  by (simp add: advanceHour_def)

lemma advanceHour_below_23: "hour < 23 \<Longrightarrow> advanceHour hour = hour + 1"
  by (simp add: advanceHour_def)

lemma advanceMinute_minute_range:
  "minute \<le> 59 \<Longrightarrow> snd (advanceMinute (hour, minute)) \<le> 59"
  by (simp add: advanceMinute_def word_less_nat_alt word_le_nat_alt unat_word_ariths)

lemma advanceMinute_hour_range:
  "hour \<le> 23 \<Longrightarrow> minute \<le> 59 \<Longrightarrow> \<not> (hour = 23 \<and> minute = 59)
   \<Longrightarrow> fst (advanceMinute (hour, minute)) \<le> 23"
  by (auto simp add: advanceMinute_def word_less_nat_alt word_le_nat_alt unat_word_ariths
      word_unat_eq_iff)

text \<open>
  C2. \<open>advanceHour\<close> wraps 23 to 0 and otherwise adds 1, and \<open>advanceMinute\<close> wraps
  minute 59 to 0 and adds 1 to the hour. But \<open>advanceMinute\<close> adds that 1 without the
  wrap-around of \<open>advanceHour\<close>: at 23:59 it returns hour 24, outside the range 0 to 23.
  One press of the minute button on a clock started at 23:59 leaves 24 in \<open>currentHour\<close>,
  and the write-back then sends hour 24 to the RTC.
\<close>

theorem advanceMinute_leaves_hour_range:
  "advanceMinute (23, 59) = (24, 0) \<and> \<not> (24 :: u8) \<le> 23
 \<and> currentHour booted_at_2359 = 23 \<and> currentMinute booted_at_2359 = 59
 \<and> count_event AdvanceMinute (run (take 2 minute_press) booted_at_2359) = 1
 \<and> currentHour (run (take 2 minute_press) booted_at_2359) = 24
 \<and> currentMinute (run (take 2 minute_press) booted_at_2359) = 0
 \<and> rtc_writes (run minute_press booted_at_2359)
      = [RtcAdjust \<lparr>dt_year = 2024, dt_month = 2, dt_day = 29,
                    dt_hour = 24, dt_minute = 0, dt_second = 5\<rparr>]"
  by (simp add: run_defs booted_at_2359_def chip_at_2359_def minute_press_def)

section \<open>Debouncing, press and repeat\<close>

text \<open>
  C7, as amended. For each button, whatever the other button does:
  \<^item> over any list of passes in which the sampled level of the button never stays the
    same for more than the debounce interval of 50 ms, no advance event of the button
    is produced; and no pass at which the level has lasted 50 ms or less produces one;
  \<^item> a pass at which the low level has lasted strictly longer than 50 ms, the button not
    yet being held, produces exactly one advance event, marks the button as held and
    arms the repeat deadline 1000 ms after that pass;
  \<^item> while the button is held and the level stays low, with the deadline armed at
    \<open>t0 + 1000\<close> and the counter not wrapping around between \<open>t0\<close> and the deadline
    or the pass: a pass \<open>d\<close> ms after \<open>t0\<close> produces exactly one further advance event
    and re-arms the deadline 1000 ms after itself when \<open>d \<ge> 1000\<close>, and produces none
    and leaves the deadline when \<open>d < 1000\<close>;
  \<^item> a pass at which the high level has lasted strictly longer than 50 ms produces no
    advance event and ends the hold.
\<close>

theorem debounce_press_and_repeat:
  "(hour_never_settles (lastHourButtonValue s) (lastHourButtonChange s) ticks \<longrightarrow>
      count_event AdvanceHour (run ticks s) = count_event AdvanceHour s)
 \<and> (minute_never_settles (lastMinuteButtonValue s) (lastMinuteButtonChange s) ticks \<longrightarrow>
      count_event AdvanceMinute (run ticks s) = count_event AdvanceMinute s)
 \<and> (hour_level_age hv mv t s \<le> BUTTON_DEBOUNCE_MS \<longrightarrow>
      count_event AdvanceHour (handleTimeAdjustButtons hv mv t s) = count_event AdvanceHour s)
 \<and> (minute_level_age hv mv t s \<le> BUTTON_DEBOUNCE_MS \<longrightarrow>
      count_event AdvanceMinute (handleTimeAdjustButtons hv mv t s)
        = count_event AdvanceMinute s)
 \<and> (BUTTON_DEBOUNCE_MS < hour_level_age LOW mv t s \<and> \<not> hourButtonBeingHeld s \<longrightarrow>
      count_event AdvanceHour (handleTimeAdjustButtons LOW mv t s)
        = count_event AdvanceHour s + 1
      \<and> hourButtonBeingHeld (handleTimeAdjustButtons LOW mv t s)
      \<and> nextHourAdvanceTime (handleTimeAdjustButtons LOW mv t s)
        = t + BUTTON_HOLD_ACTION_REPEAT_PERIOD)
 \<and> (BUTTON_DEBOUNCE_MS < minute_level_age hv LOW t s \<and> \<not> minuteButtonBeingHeld s \<longrightarrow>
      count_event AdvanceMinute (handleTimeAdjustButtons hv LOW t s)
        = count_event AdvanceMinute s + 1
      \<and> minuteButtonBeingHeld (handleTimeAdjustButtons hv LOW t s)
      \<and> nextMinuteAdvanceTime (handleTimeAdjustButtons hv LOW t s)
        = t + BUTTON_HOLD_ACTION_REPEAT_PERIOD)
 \<and> (BUTTON_DEBOUNCE_MS < hour_level_age LOW mv t s \<and> hourButtonBeingHeld s
      \<and> nextHourAdvanceTime s = t0 + BUTTON_HOLD_ACTION_REPEAT_PERIOD
      \<and> t = t0 + of_nat d \<and> unat t0 + d < 2 ^ 32 \<and> unat t0 + 1000 < 2 ^ 32 \<longrightarrow>
      hourButtonBeingHeld (handleTimeAdjustButtons LOW mv t s)
      \<and> (if 1000 \<le> d
         then count_event AdvanceHour (handleTimeAdjustButtons LOW mv t s)
                = count_event AdvanceHour s + 1
            \<and> nextHourAdvanceTime (handleTimeAdjustButtons LOW mv t s)
                = t + BUTTON_HOLD_ACTION_REPEAT_PERIOD
         else count_event AdvanceHour (handleTimeAdjustButtons LOW mv t s)
                = count_event AdvanceHour s
            \<and> nextHourAdvanceTime (handleTimeAdjustButtons LOW mv t s)
                = nextHourAdvanceTime s))
 \<and> (BUTTON_DEBOUNCE_MS < minute_level_age hv LOW t s \<and> minuteButtonBeingHeld s
      \<and> nextMinuteAdvanceTime s = t0 + BUTTON_HOLD_ACTION_REPEAT_PERIOD
      \<and> t = t0 + of_nat d \<and> unat t0 + d < 2 ^ 32 \<and> unat t0 + 1000 < 2 ^ 32 \<longrightarrow>
      minuteButtonBeingHeld (handleTimeAdjustButtons hv LOW t s)
      \<and> (if 1000 \<le> d
         then count_event AdvanceMinute (handleTimeAdjustButtons hv LOW t s)
                = count_event AdvanceMinute s + 1
            \<and> nextMinuteAdvanceTime (handleTimeAdjustButtons hv LOW t s)
                = t + BUTTON_HOLD_ACTION_REPEAT_PERIOD
         else count_event AdvanceMinute (handleTimeAdjustButtons hv LOW t s)
                = count_event AdvanceMinute s
            \<and> nextMinuteAdvanceTime (handleTimeAdjustButtons hv LOW t s)
                = nextMinuteAdvanceTime s))
 \<and> (BUTTON_DEBOUNCE_MS < hour_level_age HIGH mv t s \<longrightarrow>
      count_event AdvanceHour (handleTimeAdjustButtons HIGH mv t s) = count_event AdvanceHour s
      \<and> \<not> hourButtonBeingHeld (handleTimeAdjustButtons HIGH mv t s))
 \<and> (BUTTON_DEBOUNCE_MS < minute_level_age hv HIGH t s \<longrightarrow>
      count_event AdvanceMinute (handleTimeAdjustButtons hv HIGH t s)
        = count_event AdvanceMinute s
      \<and> \<not> minuteButtonBeingHeld (handleTimeAdjustButtons hv HIGH t s))"
  using hour_never_settles_no_event [of s ticks] minute_never_settles_no_event [of s ticks]
        hour_unsettled [of hv mv t s] minute_unsettled [of hv mv t s]
        hour_pressed [of mv t s] minute_pressed [of hv t s]
        hour_held_repeat [of mv t s t0 d] minute_held_repeat [of hv t s t0 d]
        hour_released [of mv t s] minute_released [of hv t s]
  by (intro conjI impI; (elim conjE)?; blast)

theorem debounce_press_and_repeat_witness:
  "hour_never_settles (lastHourButtonValue both_low) (lastHourButtonChange both_low) both_chatter
 \<and> minute_never_settles (lastMinuteButtonValue both_low) (lastMinuteButtonChange both_low)
      both_chatter
 \<and> count_event AdvanceHour (run both_chatter both_low) = 0
 \<and> count_event AdvanceMinute (run both_chatter both_low) = 0
 \<and> hour_level_age LOW LOW 1050 both_low = 50
 \<and> minute_level_age LOW LOW 1050 both_low = 50
 \<and> count_event AdvanceHour (handleTimeAdjustButtons LOW LOW 1050 both_low) = 0
 \<and> count_event AdvanceMinute (handleTimeAdjustButtons LOW LOW 1050 both_low) = 0
 \<and> hour_level_age LOW LOW 1060 both_low = 60
 \<and> minute_level_age LOW LOW 1060 both_low = 60
 \<and> count_event AdvanceHour (handleTimeAdjustButtons LOW LOW 1060 both_low) = 1
 \<and> count_event AdvanceMinute (handleTimeAdjustButtons LOW LOW 1060 both_low) = 1
 \<and> nextHourAdvanceTime (handleTimeAdjustButtons LOW LOW 1060 both_low) = 2060
 \<and> nextMinuteAdvanceTime (handleTimeAdjustButtons LOW LOW 1060 both_low) = 2060
 \<and> hourButtonBeingHeld both_held \<and> minuteButtonBeingHeld both_held
 \<and> count_event AdvanceHour (handleTimeAdjustButtons LOW LOW 2059 both_held) = 1
 \<and> count_event AdvanceMinute (handleTimeAdjustButtons LOW LOW 2059 both_held) = 1
 \<and> count_event AdvanceHour (handleTimeAdjustButtons LOW LOW 2060 both_held) = 2
 \<and> count_event AdvanceMinute (handleTimeAdjustButtons LOW LOW 2060 both_held) = 2
 \<and> nextHourAdvanceTime (handleTimeAdjustButtons LOW LOW 2060 both_held) = 3060
 \<and> nextMinuteAdvanceTime (handleTimeAdjustButtons LOW LOW 2060 both_held) = 3060
 \<and> hour_level_age HIGH HIGH 1160 both_let_go = 60
 \<and> minute_level_age HIGH HIGH 1160 both_let_go = 60
 \<and> count_event AdvanceHour (handleTimeAdjustButtons HIGH HIGH 1160 both_let_go) = 1
 \<and> count_event AdvanceMinute (handleTimeAdjustButtons HIGH HIGH 1160 both_let_go) = 1
 \<and> \<not> hourButtonBeingHeld (handleTimeAdjustButtons HIGH HIGH 1160 both_let_go)
 \<and> \<not> minuteButtonBeingHeld (handleTimeAdjustButtons HIGH HIGH 1160 both_let_go)"
proof -
  have chat: "hour_never_settles (lastHourButtonValue both_low) (lastHourButtonChange both_low)
                both_chatter"
      "minute_never_settles (lastMinuteButtonValue both_low) (lastMinuteButtonChange both_low)
         both_chatter"
    by (simp_all add: run_defs)
  have age50: "hour_level_age LOW LOW 1050 both_low = 50"
      "minute_level_age LOW LOW 1050 both_low = 50"
    by (simp_all add: run_defs hour_level_age_def minute_level_age_def)
  have age60: "hour_level_age LOW LOW 1060 both_low = 60"
      "minute_level_age LOW LOW 1060 both_low = 60"
      "\<not> hourButtonBeingHeld both_low" "\<not> minuteButtonBeingHeld both_low"
    by (simp_all add: run_defs hour_level_age_def minute_level_age_def)
  have held: "hour_level_age LOW LOW 2059 both_held = 1059"
      "minute_level_age LOW LOW 2059 both_held = 1059"
      "hour_level_age LOW LOW 2060 both_held = 1060"
      "minute_level_age LOW LOW 2060 both_held = 1060"
      "hourButtonBeingHeld both_held" "minuteButtonBeingHeld both_held"
      "nextHourAdvanceTime both_held = 1060 + BUTTON_HOLD_ACTION_REPEAT_PERIOD"
      "nextMinuteAdvanceTime both_held = 1060 + BUTTON_HOLD_ACTION_REPEAT_PERIOD"
    by (simp_all add: run_defs hour_level_age_def minute_level_age_def)
  have gone: "hour_level_age HIGH HIGH 1160 both_let_go = 60"
      "minute_level_age HIGH HIGH 1160 both_let_go = 60"
    by (simp_all add: run_defs hour_level_age_def minute_level_age_def)
  have counts: "count_event AdvanceHour both_low = 0" "count_event AdvanceMinute both_low = 0"
      "count_event AdvanceHour both_held = 1" "count_event AdvanceMinute both_held = 1"
      "count_event AdvanceHour both_let_go = 1" "count_event AdvanceMinute both_let_go = 1"
    by (simp_all add: run_defs)
  have params: "BUTTON_DEBOUNCE_MS = 50" "BUTTON_HOLD_ACTION_REPEAT_PERIOD = 1000"
    by (simp_all add: BUTTON_DEBOUNCE_MS_def BUTTON_HOLD_ACTION_REPEAT_PERIOD_def)
  show ?thesis
    using chat age50 age60 held gone counts
      debounce_press_and_repeat [of both_low both_chatter LOW LOW 1050 0 0]
      debounce_press_and_repeat [of both_low "[]" LOW LOW 1060 0 0]
      debounce_press_and_repeat [of both_held "[]" LOW LOW 2059 1060 999]
      debounce_press_and_repeat [of both_held "[]" LOW LOW 2060 1060 1000]
      debounce_press_and_repeat [of both_let_go "[]" HIGH HIGH 1160 0 0]
    by (simp add: params)
qed

text \<open>
  The claim as first stated, that a press is recognised once the level has lasted at
  least 50 ms, fails at exactly 50 ms: the comparison is strict, and the press is
  recognised one millisecond later.
\<close>

theorem press_at_exactly_debounce_interval_counterexample:
  "hour_level_age LOW HIGH 1050 (run [tick LOW HIGH 1000] booted) = BUTTON_DEBOUNCE_MS
 \<and> count_event AdvanceHour (handleTimeAdjustButtons LOW HIGH 1050 (run [tick LOW HIGH 1000] booted)) = 0
 \<and> count_event AdvanceHour (handleTimeAdjustButtons LOW HIGH 1051 (run [tick LOW HIGH 1000] booted)) = 1"
  by (simp add: run_defs hour_level_age_def)

section \<open>The write-back to the RTC\<close>

text \<open>The button blocks never write to the RTC; the write-back block does when it fires.\<close>

lemma rtc_writes_button_blocks:
  "rtc_writes (debounceBlock hv mv t s) = rtc_writes s"
  "rtc_writes (hourButtonBlock hv t s) = rtc_writes s"
  "rtc_writes (minuteButtonBlock mv t s) = rtc_writes s"
  by (simp_all add: rtc_writes_def debounceBlock_eq block_defs)

lemma write_only_when_fires:
  assumes "\<not> write_back_fires hv mv t s"
  shows "rtc_writes (handleTimeAdjustButtons hv mv t s) = rtc_writes s"
proof -
  define sm where "sm = minuteButtonBlock mv t (hourButtonBlock hv t (debounceBlock hv mv t s))"
  from assms have "\<not> (timeLocallyUpdated sm = True \<and> t > updateRTCTime sm
         \<and> hourButtonBeingHeld sm = False \<and> minuteButtonBeingHeld sm = False)"
    by (simp add: write_back_fires_def Let_def sm_def)
  then have "writeBackBlock t sm = sm"
    unfolding writeBackBlock_def by (rule if_not_P)
  then have "rtc_writes (handleTimeAdjustButtons hv mv t s) = rtc_writes sm"
    by (simp add: handleTimeAdjustButtons_def sm_def)
  also have "\<dots> = rtc_writes s"
    by (simp add: sm_def rtc_writes_button_blocks)
  finally show ?thesis .
qed

text \<open>While an edit is pending the seconds are zero.\<close>

lemma second_zero_blocks:
  assumes "timeLocallyUpdated s \<longrightarrow> currentSecond s = 0"
  shows "timeLocallyUpdated (debounceBlock hv mv t s)
           \<longrightarrow> currentSecond (debounceBlock hv mv t s) = 0"
    and "timeLocallyUpdated (hourButtonBlock hv t s)
           \<longrightarrow> currentSecond (hourButtonBlock hv t s) = 0"
    and "timeLocallyUpdated (minuteButtonBlock mv t s)
           \<longrightarrow> currentSecond (minuteButtonBlock mv t s) = 0"
    and "timeLocallyUpdated (writeBackBlock t s)
           \<longrightarrow> currentSecond (writeBackBlock t s) = 0"
  using assms by (simp_all add: debounceBlock_eq block_defs)

lemma pending_edit_has_second_zero:
  assumes "timeLocallyUpdated s \<longrightarrow> currentSecond s = 0"
  shows "timeLocallyUpdated (loop i s) \<longrightarrow> currentSecond (loop i s) = 0"
proof -
  let ?s1 = "handleTimeAdjustButtons (hourPin i) (minutePin i) (millisButtons i) s"
  have h: "timeLocallyUpdated ?s1 \<longrightarrow> currentSecond ?s1 = 0"
    unfolding handleTimeAdjustButtons_def
    by (intro second_zero_blocks assms)
  have r: "\<not> timeLocallyUpdated x \<Longrightarrow> \<not> timeLocallyUpdated (updateDisplayFromRTC x)" for x
    by (simp add: block_defs)
  show ?thesis
    using h r [of ?s1] by (simp add: loop_def Let_def)
qed

lemma pending_edit_has_second_zero_run:
  assumes "timeLocallyUpdated s \<longrightarrow> currentSecond s = 0"
  shows "timeLocallyUpdated (run ticks s) \<longrightarrow> currentSecond (run ticks s) = 0"
  using assms
proof (induction ticks arbitrary: s)
  case Nil
  then show ?case by simp
next
  case (Cons i ticks)
  from pending_edit_has_second_zero [OF Cons.prems]
  show ?case by (simp add: Cons.IH)
qed

lemma no_pending_edit_after_setup:
  "\<not> timeLocallyUpdated (setup_sketch millis (initial_state chip))"
  by (simp add: setup_sketch_def initial_state_def Let_def updateDisplayFromRTC_def
      rtc_now_def rtc_adjust_def updateDisplay_eq)

lemma second_zero_from_startup:
  "timeLocallyUpdated (run ticks (setup_sketch millis (initial_state chip)))
   \<longrightarrow> currentSecond (run ticks (setup_sketch millis (initial_state chip))) = 0"
  by (rule pending_edit_has_second_zero_run) (simp add: no_pending_edit_after_setup)

lemma loop_keeps_pending_edit:
  assumes "timeLocallyUpdated (handleTimeAdjustButtons (hourPin i) (minutePin i) (millisButtons i) s)"
  shows "loop i s = handleTimeAdjustButtons (hourPin i) (minutePin i) (millisButtons i) s"
  using assms by (simp add: loop_def Let_def)

lemma write_back_waits_for_deadline:
  assumes fires: "write_back_fires hv mv t s"
      and armed: "updateRTCTime s = t0 + BUTTON_INACTION_RTC_UPDATE_DELAY"
      and nowrap: "unat t0 + 5000 < 2 ^ 32"
  shows "unat t0 + 5000 < unat t"
proof -
  define sd where "sd = debounceBlock hv mv t s"
  define sh where "sh = hourButtonBlock hv t sd"
  define sm where "sm = minuteButtonBlock mv t sh"
  from fires have g: "t > updateRTCTime sm"
      "\<not> hourButtonBeingHeld sm" "\<not> minuteButtonBeingHeld sm"
    by (simp_all add: write_back_fires_def Let_def sm_def sh_def sd_def)
  from g(3) have sm: "sm = sh\<lparr>minuteButtonBeingHeld := False\<rparr>"
    unfolding sm_def by (rule minuteButtonBlock_quiet)
  from g(2) have "\<not> hourButtonBeingHeld sh"
    by (simp add: sm_def hour_vars_minuteButtonBlock)
  then have sh: "sh = sd\<lparr>hourButtonBeingHeld := False\<rparr>"
    unfolding sh_def by (rule hourButtonBlock_quiet)
  have "updateRTCTime sm = updateRTCTime s"
    by (simp add: sm sh sd_def debounceBlock_eq)
  with g(1) armed have "t0 + BUTTON_INACTION_RTC_UPDATE_DELAY < t" by simp
  moreover have "unat (t0 + BUTTON_INACTION_RTC_UPDATE_DELAY) = unat t0 + 5000"
    using nowrap unat_add_lem [of t0 BUTTON_INACTION_RTC_UPDATE_DELAY]
    by (simp add: BUTTON_INACTION_RTC_UPDATE_DELAY_def)
  ultimately show ?thesis
    by (simp add: word_less_nat_alt)
qed

text \<open>
  C3, as amended. When the write-back path fires, in a state where a pending edit has
  its seconds at zero (which every state reached from startup satisfies, see
  \<open>second_zero_from_startup\<close>): an edit was pending, the call reads the RTC and
  then writes to it the date it has just read together with \<open>currentHour\<close>,
  \<open>currentMinute\<close> and the constant 5 as seconds, the inaction delay of 5000 ms over
  1000, while the seconds of the canonical time are 0; the canonical time is unchanged
  by the call and \<open>timeLocallyUpdated\<close> is cleared.
\<close>

theorem write_back_value:
  assumes fires: "write_back_fires hv mv t s"
      and inv: "timeLocallyUpdated s \<longrightarrow> currentSecond s = 0"
  shows "trace (handleTimeAdjustButtons hv mv t s)
           = trace s @ [RtcNow,
                        RtcAdjust \<lparr>dt_year = dt_year (rtc_time (rtc s)),
                                   dt_month = dt_month (rtc_time (rtc s)),
                                   dt_day = dt_day (rtc_time (rtc s)),
                                   dt_hour = currentHour s, dt_minute = currentMinute s,
                                   dt_second = 5\<rparr>]
       \<and> timeLocallyUpdated s
       \<and> currentHour (handleTimeAdjustButtons hv mv t s) = currentHour s
       \<and> currentMinute (handleTimeAdjustButtons hv mv t s) = currentMinute s
       \<and> currentSecond (handleTimeAdjustButtons hv mv t s) = 0
       \<and> timeLocallyUpdated (handleTimeAdjustButtons hv mv t s) = False"
proof -
  define sd where "sd = debounceBlock hv mv t s"
  define sh where "sh = hourButtonBlock hv t sd"
  define sm where "sm = minuteButtonBlock mv t sh"
  from fires have g: "timeLocallyUpdated sm" "t > updateRTCTime sm"
      "\<not> hourButtonBeingHeld sm" "\<not> minuteButtonBeingHeld sm"
    by (simp_all add: write_back_fires_def Let_def sm_def sh_def sd_def)
  from g(4) have sm: "sm = sh\<lparr>minuteButtonBeingHeld := False\<rparr>"
    unfolding sm_def by (rule minuteButtonBlock_quiet)
  from g(3) have "\<not> hourButtonBeingHeld sh"
    by (simp add: sm_def hour_vars_minuteButtonBlock)
  then have sh: "sh = sd\<lparr>hourButtonBeingHeld := False\<rparr>"
    unfolding sh_def by (rule hourButtonBlock_quiet)
  have tlu: "timeLocallyUpdated s"
    using g(1) by (simp add: sm sh sd_def debounceBlock_eq)
  with inv have sec: "currentSecond s = 0" by simp
  have "handleTimeAdjustButtons hv mv t s = writeBackBlock t sm"
    by (simp add: handleTimeAdjustButtons_def sm_def sh_def sd_def)
  then show ?thesis
    using g sec tlu
    by (simp add: writeBackBlock_def rtc_now_def rtc_adjust_def Let_def
        BUTTON_INACTION_RTC_UPDATE_DELAY_def MS_PER_SECOND_def
        sm sh sd_def debounceBlock_eq)
qed

theorem write_back_value_witness:
  "write_back_fires HIGH HIGH 6061 (run one_press booted)
 \<and> timeLocallyUpdated (run one_press booted)
 \<and> currentSecond (run one_press booted) = 0
 \<and> trace (handleTimeAdjustButtons HIGH HIGH 6061 (run one_press booted))
      = trace (run one_press booted)
        @ [RtcNow, RtcAdjust \<lparr>dt_year = 2024, dt_month = 2, dt_day = 29,
                              dt_hour = 18, dt_minute = 42, dt_second = 5\<rparr>]
 \<and> currentHour (handleTimeAdjustButtons HIGH HIGH 6061 (run one_press booted)) = 18
 \<and> currentMinute (handleTimeAdjustButtons HIGH HIGH 6061 (run one_press booted)) = 42
 \<and> currentSecond (handleTimeAdjustButtons HIGH HIGH 6061 (run one_press booted)) = 0
 \<and> \<not> timeLocallyUpdated (handleTimeAdjustButtons HIGH HIGH 6061 (run one_press booted))"
proof -
  have f: "write_back_fires HIGH HIGH 6061 (run one_press booted)"
    by (simp add: run_defs write_back_fires_def)
  have i: "timeLocallyUpdated (run one_press booted) \<longrightarrow> currentSecond (run one_press booted) = 0"
    by (simp add: run_defs)
  have v: "currentHour (run one_press booted) = 18" "currentMinute (run one_press booted) = 42"
      "currentSecond (run one_press booted) = 0"
      "rtc_time (rtc (run one_press booted)) = rtc_time some_chip"
    by (simp_all add: run_defs)
  show ?thesis
    using f v write_back_value [OF f i]
    by (simp add: some_chip_def)
qed

text \<open>
  The claim as first stated, that the value written has 0 as seconds, fails after one
  press of the hour button at 17:42: the write-back fires at 6061 and writes 18:42:05,
  not 18:42:00.
\<close>

theorem write_back_second_counterexample:
  "write_back_fires HIGH HIGH 6061 (run one_press booted)
 \<and> currentHour (run one_press booted) = 18
 \<and> currentMinute (run one_press booted) = 42
 \<and> currentSecond (run one_press booted) = 0
 \<and> rtc_writes (handleTimeAdjustButtons HIGH HIGH 6061 (run one_press booted))
      = [RtcAdjust \<lparr>dt_year = 2024, dt_month = 2, dt_day = 29,
                    dt_hour = 18, dt_minute = 42, dt_second = 5\<rparr>]
 \<and> rtc_writes (handleTimeAdjustButtons HIGH HIGH 6061 (run one_press booted))
      \<noteq> [RtcAdjust \<lparr>dt_year = 2024, dt_month = 2, dt_day = 29,
                    dt_hour = 18, dt_minute = 42, dt_second = 0\<rparr>]"
  by (simp add: run_defs write_back_fires_def)

section \<open>Startup after a loss of power\<close>




section \<open>The counter wrapping around\<close>

text \<open>
  The debounce test and the poll test subtract the time of the last event from the
  counter, which gives the elapsed time whether or not the counter has wrapped around
  in between (\<open>elapsed_by_subtraction\<close>, \<open>subtraction_test_is_elapsed_time\<close>).
  The repeat test and the write-back test compare the counter with a deadline computed
  by a wrapping addition.
\<close>

text \<open>
  C4. The hold-repeat comparison is \<open>timeNow \<ge> nextHourAdvanceTime\<close>, not a
  subtraction, and does not survive the wrap-around. Away from it, a button held over
  passes at 1064, 1065 and 1066 advances the hour once, the next advance being due at
  2064. With the same passes 192 ms before the wrap-around, the deadline wraps to 808,
  every later pass finds it reached, and the hour advances at each pass: three times
  within 2 ms, from 17 to 20.
\<close>

theorem hold_repeat_fires_early_at_wraparound:
  "count_event AdvanceHour (run hold_early booted) = 1
 \<and> nextHourAdvanceTime (run (take 2 hold_early) booted) = 2064
 \<and> count_event AdvanceHour (run (take 2 hold_at_wrap) idle_near_wrap) = 1
 \<and> nextHourAdvanceTime (run (take 2 hold_at_wrap) idle_near_wrap) = 808
 \<and> count_event AdvanceHour (run (take 3 hold_at_wrap) idle_near_wrap) = 2
 \<and> count_event AdvanceHour (run hold_at_wrap idle_near_wrap) = 3
 \<and> currentHour (run hold_at_wrap idle_near_wrap) = 20"
  by (simp add: run_defs)

text \<open>
  C5. Away from the wrap-around one press is written to the RTC once, after the
  deadline, with no read of the RTC in between (\<open>one_press_away_from_wraparound\<close>,
  \<open>write_back_waits_for_deadline\<close>, \<open>loop_keeps_pending_edit\<close>). But the write-back
  comparison is \<open>timeNow > updateRTCTime\<close>, not a subtraction: after one press
  recognised 192 ms before the wrap-around the deadline wraps to 4808, and the write to
  the RTC happens as soon as the release is recognised, 64 ms after the edit instead of
  no earlier than 5000 ms after it.
\<close>

theorem rtc_write_early_at_wraparound:
  "count_event AdvanceHour (run press_at_wrap idle_near_wrap) = 1
 \<and> updateRTCTime (run (take 2 press_at_wrap) idle_near_wrap) = 4808
 \<and> rtc_writes (run (take 3 press_at_wrap) idle_near_wrap) = []
 \<and> rtc_writes (run press_at_wrap idle_near_wrap)
      = [RtcAdjust \<lparr>dt_year = 2024, dt_month = 2, dt_day = 29,
                    dt_hour = 18, dt_minute = 42, dt_second = 5\<rparr>]
 \<and> (0xFFFFFF80 :: u32) - 0xFFFFFF40 = 64
 \<and> \<not> timeLocallyUpdated (run press_at_wrap idle_near_wrap)"
  by (simp add: run_defs)

lemma one_press_away_from_wraparound:
  "count_event AdvanceHour (run one_press booted) = 1
 \<and> updateRTCTime (run one_press booted) = 6060
 \<and> rtc_writes (run one_press booted) = []
 \<and> count_event RtcNow (run one_press booted) = count_event RtcNow booted
 \<and> rtc_writes (run (one_press @ [tick HIGH HIGH 6061, tick HIGH HIGH 6062, tick HIGH HIGH 12000]) booted)
      = [RtcAdjust \<lparr>dt_year = 2024, dt_month = 2, dt_day = 29,
                    dt_hour = 18, dt_minute = 42, dt_second = 5\<rparr>]"
  by (simp add: run_defs)

end
